theory Spec2Isabelle
  imports Complex_Main
begin

section \<open>Python values and failures\<close>

text \<open>
  The exceptions the builders of \<^verbatim>\<open>neural_network.py\<close> can end in. The first three are
  raised by the file's own Python expressions (\<^verbatim>\<open>layer_sizes[0]\<close>, \<^verbatim>\<open>2.0/dim_in\<close>);
  \<open>ValueError\<close> is what the framework raises while a graph is built, and
  \<open>InvalidArgumentError\<close> what it raises while a graph is run.
\<close>

datatype error = IndexError | TypeError | ZeroDivisionError | ValueError | InvalidArgumentError

text \<open>Python's \<^verbatim>\<open>xs[i]\<close>: a negative index counts from the end, anything else raises.\<close>

definition getitem :: "'a list \<Rightarrow> int \<Rightarrow> error + 'a" where
  "getitem xs i =
     (if 0 \<le> i \<and> i < int (length xs) then Inr (xs ! nat i)
      else if i < 0 \<and> - int (length xs) \<le> i then Inr (xs ! nat (int (length xs) + i))
      else Inl IndexError)"

text \<open>Python's \<^verbatim>\<open>str(n)\<close> for a non-negative integer: its decimal digits.\<close>

definition digit_char :: "nat \<Rightarrow> char" where
  "digit_char d = ''0123456789'' ! d"

fun str :: "nat \<Rightarrow> string" where
  "str n = (if n < 10 then [digit_char n] else str (n div 10) @ [digit_char (n mod 10)])"

declare str.simps [simp del]

text \<open>
  Python's \<^verbatim>\<open>x / d\<close> for a float \<open>x\<close> and a dimension \<open>d\<close> read from a static shape:
  an unknown dimension is \<^verbatim>\<open>None\<close> (a \<open>TypeError\<close>), a zero one divides by zero.
\<close>

definition truediv :: "real \<Rightarrow> nat option \<Rightarrow> error + real" where
  "truediv x d =
     (case d of
        None \<Rightarrow> Inl TypeError
      | Some n \<Rightarrow> if n = 0 then Inl ZeroDivisionError else Inr (x / real n))"

section \<open>The computation graph of the framework\<close>

text \<open>
  The file builds a TensorFlow graph; it computes nothing itself. A tensor handle is
  modelled by what the builders can observe or decide about it: the name scopes it was
  created under, its element type, its static shape (\<open>None\<close>: unknown rank; a dimension
  \<open>None\<close>: unknown size) and the operation that produces it, with that operation's
  inputs and attributes.
\<close>

datatype dtype = tf_float32 | tf_bool

type_synonym tensor_shape = "nat option list option"

datatype initializer = truncated_normal_initializer (stddev: real) (seed_of: int)

datatype activation = no_activation | tf_nn_relu

datatype tensor = Tensor (tensor_scope: "string list") (tensor_dtype: dtype)
    (get_shape: tensor_shape) (tensor_op: operation)
and operation =
    Placeholder string
  | Const real
  | Dense tensor nat activation initializer
  | BatchNormalization tensor bool bool tensor
  | Dropout tensor tensor
  | Sub tensor tensor
  | Square tensor
  | Abs tensor
  | RealDiv tensor tensor
  | Greater tensor tensor
  | Cast tensor
  | Mean tensor

text \<open>
  The default graph is global mutable state of the framework: the operations created so
  far in creation order, the stack of open name scopes, and the registered summaries.
\<close>

record graph =
  operations :: "tensor list"
  name_stack :: "string list"
  summaries :: "(string list \<times> tensor) list"

definition tf_reset_default_graph :: "graph \<Rightarrow> graph" where
  "tf_reset_default_graph g = \<lparr>operations = [], name_stack = [], summaries = []\<rparr>"

definition tf_name_scope_enter :: "string \<Rightarrow> graph \<Rightarrow> graph" where
  "tf_name_scope_enter name g = g\<lparr>name_stack := name_stack g @ [name]\<rparr>"

definition tf_name_scope_exit :: "graph \<Rightarrow> graph" where
  "tf_name_scope_exit g = g\<lparr>name_stack := butlast (name_stack g)\<rparr>"

definition create_op :: "dtype \<Rightarrow> tensor_shape \<Rightarrow> operation \<Rightarrow> graph \<Rightarrow> tensor \<times> graph" where
  "create_op dt sh opn g =
     (let t = Tensor (name_stack g) dt sh opn
      in (t, g\<lparr>operations := operations g @ [t]\<rparr>))"

definition as_list :: "tensor_shape \<Rightarrow> error + nat option list" where
  "as_list sh = (case sh of None \<Rightarrow> Inl ValueError | Some dims \<Rightarrow> Inr dims)"

subsection \<open>Static shapes of element-wise operations\<close>

text \<open>
  Two dimensions broadcast when they are equal or one of them is 1; an unknown
  dimension against a known one larger than 1 takes the known one. The outer option is
  \<open>None\<close> when the dimensions are incompatible.
\<close>

fun broadcast_dim :: "nat option \<Rightarrow> nat option \<Rightarrow> nat option option" where
  "broadcast_dim (Some a) (Some b) =
     (if a = b then Some (Some a) else if a = 1 then Some (Some b)
      else if b = 1 then Some (Some a) else None)"
| "broadcast_dim None (Some b) = (if 1 < b then Some (Some b) else Some None)"
| "broadcast_dim (Some a) None = (if 1 < a then Some (Some a) else Some None)"
| "broadcast_dim None None = Some None"

text \<open>Dimensions are aligned from the right; both lists are given reversed.\<close>

fun broadcast_rev :: "nat option list \<Rightarrow> nat option list \<Rightarrow> nat option list option" where
  "broadcast_rev [] ys = Some ys"
| "broadcast_rev xs [] = Some xs"
| "broadcast_rev (x # xs) (y # ys) =
     (case broadcast_dim x y of
        None \<Rightarrow> None
      | Some d \<Rightarrow> (case broadcast_rev xs ys of None \<Rightarrow> None | Some ds \<Rightarrow> Some (d # ds)))"

definition broadcast_shape :: "tensor_shape \<Rightarrow> tensor_shape \<Rightarrow> error + tensor_shape" where
  "broadcast_shape a b =
     (case (a, b) of
        (Some xs, Some ys) \<Rightarrow>
          (case broadcast_rev (rev xs) (rev ys) of
             None \<Rightarrow> Inl ValueError
           | Some ds \<Rightarrow> Inr (Some (rev ds)))
      | _ \<Rightarrow> Inr None)"

subsection \<open>The operations of the framework the file calls\<close>

text \<open>
  Each function below stands for one call into TensorFlow: it adds the operation to the
  graph and returns the handle of its output. Rejections for a wrong element type are
  not modelled; those for a static shape are.
\<close>

definition tf_placeholder :: "dtype \<Rightarrow> tensor_shape \<Rightarrow> string \<Rightarrow> graph \<Rightarrow> tensor \<times> graph" where
  "tf_placeholder dt sh name g = create_op dt sh (Placeholder name) g"

text \<open>
  \<^verbatim>\<open>tf.layers.dense\<close> needs an input of rank 2 or more whose last dimension is known;
  its output replaces that dimension by the number of units.
\<close>

definition tf_layers_dense ::
  "tensor \<Rightarrow> nat \<Rightarrow> activation \<Rightarrow> initializer \<Rightarrow> graph \<Rightarrow> error + tensor \<times> graph" where
  "tf_layers_dense inputs units act kernel_initializer g =
     (case get_shape inputs of
        None \<Rightarrow> Inl ValueError
      | Some dims \<Rightarrow>
          if length dims < 2 then Inl ValueError
          else (case last dims of
                  None \<Rightarrow> Inl ValueError
                | Some d \<Rightarrow>
                    Inr (create_op tf_float32 (Some (butlast dims @ [Some units]))
                           (Dense inputs units act kernel_initializer) g)))"

text \<open>\<^verbatim>\<open>tf.layers.batch_normalization\<close> normalises the last axis, which must be known.\<close>

definition tf_layers_batch_normalization ::
  "tensor \<Rightarrow> bool \<Rightarrow> bool \<Rightarrow> tensor \<Rightarrow> graph \<Rightarrow> error + tensor \<times> graph" where
  "tf_layers_batch_normalization x center scale training g =
     (case get_shape x of
        None \<Rightarrow> Inl ValueError
      | Some dims \<Rightarrow>
          if dims = [] then Inl ValueError
          else (case last dims of
                  None \<Rightarrow> Inl ValueError
                | Some d \<Rightarrow>
                    Inr (create_op (tensor_dtype x) (Some dims)
                           (BatchNormalization x center scale training) g)))"

definition tf_nn_dropout :: "tensor \<Rightarrow> tensor \<Rightarrow> graph \<Rightarrow> tensor \<times> graph" where
  "tf_nn_dropout x keep_prob g = create_op (tensor_dtype x) (get_shape x) (Dropout x keep_prob) g"

definition binary_op ::
  "(tensor \<Rightarrow> tensor \<Rightarrow> operation) \<Rightarrow> dtype \<Rightarrow> tensor \<Rightarrow> tensor \<Rightarrow> graph \<Rightarrow> error + tensor \<times> graph" where
  "binary_op mk dt x y g =
     (case broadcast_shape (get_shape x) (get_shape y) of
        Inl e \<Rightarrow> Inl e
      | Inr sh \<Rightarrow> Inr (create_op dt sh (mk x y) g))"

definition tf_subtract :: "tensor \<Rightarrow> tensor \<Rightarrow> graph \<Rightarrow> error + tensor \<times> graph" where
  "tf_subtract x y g = binary_op Sub (tensor_dtype x) x y g"

definition tf_divide :: "tensor \<Rightarrow> tensor \<Rightarrow> graph \<Rightarrow> error + tensor \<times> graph" where
  "tf_divide x y g = binary_op RealDiv (tensor_dtype x) x y g"

definition tf_constant :: "real \<Rightarrow> graph \<Rightarrow> tensor \<times> graph" where
  "tf_constant c g = create_op tf_float32 (Some []) (Const c) g"

text \<open>
  \<^verbatim>\<open>tf.greater(x, c)\<close> with a Python float \<open>c\<close>: the float becomes a constant of the
  graph first.
\<close>

definition tf_greater :: "tensor \<Rightarrow> real \<Rightarrow> graph \<Rightarrow> error + tensor \<times> graph" where
  "tf_greater x c g = (case tf_constant c g of (y, g') \<Rightarrow> binary_op Greater tf_bool x y g')"

definition tf_square :: "tensor \<Rightarrow> graph \<Rightarrow> tensor \<times> graph" where
  "tf_square x g = create_op (tensor_dtype x) (get_shape x) (Square x) g"

definition tf_abs :: "tensor \<Rightarrow> graph \<Rightarrow> tensor \<times> graph" where
  "tf_abs x g = create_op (tensor_dtype x) (get_shape x) (Abs x) g"

definition tf_cast :: "tensor \<Rightarrow> dtype \<Rightarrow> graph \<Rightarrow> tensor \<times> graph" where
  "tf_cast x dt g = create_op dt (get_shape x) (Cast x) g"

definition tf_reduce_mean :: "tensor \<Rightarrow> graph \<Rightarrow> tensor \<times> graph" where
  "tf_reduce_mean x g = create_op (tensor_dtype x) (Some []) (Mean x) g"

definition tf_summary_scalar :: "string \<Rightarrow> tensor \<Rightarrow> graph \<Rightarrow> graph" where
  "tf_summary_scalar name t g = g\<lparr>summaries := summaries g @ [(name_stack g @ [name], t)]\<rparr>"

section \<open>The builders of neural_network.py\<close>

text \<open>
  \<^verbatim>\<open>dense_relu(inputs, units, seed, name)\<close>. The default graph is passed in and returned.
  The initializer object is made inside the name scope, from the second static
  dimension of the input.
\<close>

definition dense_relu ::
  "tensor \<Rightarrow> nat \<Rightarrow> int \<Rightarrow> string \<Rightarrow> graph \<Rightarrow> error + tensor \<times> graph" where
  "dense_relu inputs units seed name g =
     (case as_list (get_shape inputs) of
        Inl e \<Rightarrow> Inl e
      | Inr dims \<Rightarrow>
     (case getitem dims 1 of
        Inl e \<Rightarrow> Inl e
      | Inr dim_in \<Rightarrow>
     (case truediv 2 dim_in of
        Inl e \<Rightarrow> Inl e
      | Inr q \<Rightarrow>
          (let kernel_init = truncated_normal_initializer (sqrt q) seed
           in case tf_layers_dense inputs units tf_nn_relu kernel_init (tf_name_scope_enter name g) of
                Inl e \<Rightarrow> Inl e
              | Inr (dense_layer, g') \<Rightarrow> Inr (dense_layer, tf_name_scope_exit g')))))"

text \<open>
  \<^verbatim>\<open>dense_relu_bn_drop(inputs, units, seed, training_phase, pkeep, name)\<close>: the inner
  \<^verbatim>\<open>dense_relu\<close> is called with its default name.
\<close>

definition dense_relu_bn_drop ::
  "tensor \<Rightarrow> nat \<Rightarrow> int \<Rightarrow> tensor \<Rightarrow> tensor \<Rightarrow> string \<Rightarrow> graph \<Rightarrow> error + tensor \<times> graph" where
  "dense_relu_bn_drop inputs units seed training_phase pkeep name g =
     (case dense_relu inputs units seed ''dense_relu'' (tf_name_scope_enter name g) of
        Inl e \<Rightarrow> Inl e
      | Inr (l1, g1) \<Rightarrow>
     (case tf_layers_batch_normalization l1 True True training_phase g1 of
        Inl e \<Rightarrow> Inl e
      | Inr (l2, g2) \<Rightarrow>
          (case tf_nn_dropout l2 pkeep g2 of
             (output, g3) \<Rightarrow> Inr (output, tf_name_scope_exit g3))))"

text \<open>The named tuple \<^verbatim>\<open>nn\<close> that \<^verbatim>\<open>dense_nn\<close> returns; \<^verbatim>\<open>nn.inputs\<close> is \<open>nn_inputs\<close>.\<close>

record NeuralNetwork =
  nn_inputs :: tensor
  nn_labels :: tensor
  nn_pkeep :: tensor
  nn_training_phase :: tensor
  nn_predictions :: tensor
  nn_loss :: tensor
  nn_err_2pc :: tensor
  nn_err_1pc :: tensor

text \<open>
  The loop \<^verbatim>\<open>for i in range(nb_hidden_layers - 1)\<close>, over the list of its indices, with
  the list \<^verbatim>\<open>layers\<close> it appends to.
\<close>

fun hidden_loop ::
  "nat list \<Rightarrow> tensor list \<Rightarrow> nat list \<Rightarrow> int \<Rightarrow> tensor \<Rightarrow> tensor \<Rightarrow> graph
     \<Rightarrow> error + tensor list \<times> graph" where
  "hidden_loop [] layers layer_sizes seed training_phase pkeep g = Inr (layers, g)"
| "hidden_loop (i # rest) layers layer_sizes seed training_phase pkeep g =
     (case getitem layers (int i) of
        Inl e \<Rightarrow> Inl e
      | Inr layer_i \<Rightarrow>
     (case getitem layer_sizes (int i + 1) of
        Inl e \<Rightarrow> Inl e
      | Inr units \<Rightarrow>
     (case dense_relu_bn_drop layer_i units seed training_phase pkeep
             (''dense_hidden_'' @ str (i + 1)) g of
        Inl e \<Rightarrow> Inl e
      | Inr (hidden_layer, g') \<Rightarrow>
          hidden_loop rest (layers @ [hidden_layer]) layer_sizes seed training_phase pkeep g')))"

text \<open>
  The loss and the two error rates that \<^verbatim>\<open>dense_nn\<close> attaches to the prediction layer,
  under the name scopes \<^verbatim>\<open>loss\<close> and \<^verbatim>\<open>accuracy\<close>.
\<close>

definition add_loss :: "tensor \<Rightarrow> tensor \<Rightarrow> graph \<Rightarrow> error + tensor \<times> graph" where
  "add_loss prediction_layer labels g =
     (case tf_subtract prediction_layer labels (tf_name_scope_enter ''loss'' g) of
        Inl e \<Rightarrow> Inl e
      | Inr (d, g1) \<Rightarrow>
          (case tf_square d g1 of (sq, g2) \<Rightarrow>
          (case tf_reduce_mean sq g2 of (loss, g3) \<Rightarrow>
             Inr (loss, tf_name_scope_exit (tf_summary_scalar ''loss'' loss g3)))))"

definition add_error_rate ::
  "tensor \<Rightarrow> real \<Rightarrow> string \<Rightarrow> graph \<Rightarrow> error + tensor \<times> graph" where
  "add_error_rate relative_error threshold name g =
     (case tf_greater relative_error threshold g of
        Inl e \<Rightarrow> Inl e
      | Inr (close_prediction, g1) \<Rightarrow>
          (case tf_cast close_prediction tf_float32 g1 of (c, g2) \<Rightarrow>
          (case tf_reduce_mean c g2 of (err, g3) \<Rightarrow>
             Inr (err, tf_summary_scalar name err g3))))"

definition add_accuracy ::
  "tensor \<Rightarrow> tensor \<Rightarrow> graph \<Rightarrow> error + (tensor \<times> tensor) \<times> graph" where
  "add_accuracy prediction_layer labels g =
     (case tf_subtract prediction_layer labels (tf_name_scope_enter ''accuracy'' g) of
        Inl e \<Rightarrow> Inl e
      | Inr (d, g1) \<Rightarrow>
          (case tf_abs d g1 of (a, g2) \<Rightarrow>
     (case tf_divide a labels g2 of
        Inl e \<Rightarrow> Inl e
      | Inr (relative_error, g3) \<Rightarrow>
     (case add_error_rate relative_error (2 / 100) ''error_2pc'' g3 of
        Inl e \<Rightarrow> Inl e
      | Inr (err_2pc, g4) \<Rightarrow>
     (case add_error_rate relative_error (1 / 100) ''error_1pc'' g4 of
        Inl e \<Rightarrow> Inl e
      | Inr (err_1pc, g5) \<Rightarrow> Inr ((err_2pc, err_1pc), tf_name_scope_exit g5))))))"

text \<open>
  \<^verbatim>\<open>dense_nn(nb_features, layer_sizes, nb_labels, seed)\<close>. \<^verbatim>\<open>nb_hidden_layers - 1\<close> is
  taken on naturals: for an empty \<^verbatim>\<open>layer_sizes\<close> Python's \<^verbatim>\<open>range(-1)\<close> is as empty
  as \<open>[0..<0]\<close>, and the function has raised before it gets there.
\<close>

definition dense_nn ::
  "nat \<Rightarrow> nat list \<Rightarrow> nat \<Rightarrow> int \<Rightarrow> graph \<Rightarrow> error + NeuralNetwork \<times> graph" where
  "dense_nn nb_features layer_sizes nb_labels seed g =
     (case tf_placeholder tf_float32 (Some [None, Some nb_features]) ''inputs''
             (tf_reset_default_graph g) of (inputs, g1) \<Rightarrow>
     (case tf_placeholder tf_float32 (Some [None, Some nb_labels]) ''labels'' g1 of (labels, g2) \<Rightarrow>
     (case tf_placeholder tf_bool None ''training_phase'' g2 of (training_phase, g3) \<Rightarrow>
     (case tf_placeholder tf_float32 None ''pkeep'' g3 of (pkeep, g4) \<Rightarrow>
     (let nb_hidden_layers = length layer_sizes in
     (case getitem layer_sizes 0 of
        Inl e \<Rightarrow> Inl e
      | Inr units_0 \<Rightarrow>
     (case dense_relu_bn_drop inputs units_0 seed training_phase pkeep ''dense_hidden_0'' g4 of
        Inl e \<Rightarrow> Inl e
      | Inr (first_layer, g5) \<Rightarrow>
     (case hidden_loop [0..<nb_hidden_layers - 1] [first_layer] layer_sizes seed
             training_phase pkeep g5 of
        Inl e \<Rightarrow> Inl e
      | Inr (layers, g6) \<Rightarrow>
     (case getitem layers (- 1) of
        Inl e \<Rightarrow> Inl e
      | Inr last_layer \<Rightarrow>
     (case dense_relu last_layer nb_labels seed ''predictions'' g6 of
        Inl e \<Rightarrow> Inl e
      | Inr (prediction_layer, g7) \<Rightarrow>
     (case add_loss prediction_layer labels g7 of
        Inl e \<Rightarrow> Inl e
      | Inr (loss, g8) \<Rightarrow>
     (case add_accuracy prediction_layer labels g8 of
        Inl e \<Rightarrow> Inl e
      | Inr ((err_2pc, err_1pc), g9) \<Rightarrow>
          Inr (\<lparr>nn_inputs = inputs, nn_labels = labels, nn_pkeep = pkeep,
                nn_training_phase = training_phase, nn_predictions = prediction_layer,
                nn_loss = loss, nn_err_2pc = err_2pc, nn_err_1pc = err_1pc\<rparr>, g9)))))))))))))"

section \<open>Running a graph\<close>

subsection \<open>Elements\<close>

text \<open>
  What the graph computes is decided by the framework when it runs the graph on fed
  values. A \<^verbatim>\<open>float32\<close> element is modelled with the special values of IEEE 754 and an
  exact real for every other value (\<open>Fin 0\<close> is \<open>+0\<close>): rounding, overflow and underflow
  of finite results are left out, the results of dividing by zero and of operating on
  infinities and NaN are kept.
\<close>

datatype fl = Fin real | NegZero | PosInf | NegInf | NaN

fun fl_sign :: "fl \<Rightarrow> bool" where
  "fl_sign (Fin r) = (r < 0)"
| "fl_sign NegZero = True"
| "fl_sign PosInf = False"
| "fl_sign NegInf = True"
| "fl_sign NaN = False"

fun fl_val :: "fl \<Rightarrow> real" where
  "fl_val (Fin r) = r"
| "fl_val x = 0"

fun fl_is_zero :: "fl \<Rightarrow> bool" where
  "fl_is_zero (Fin r) = (r = 0)"
| "fl_is_zero NegZero = True"
| "fl_is_zero x = False"

fun fl_is_inf :: "fl \<Rightarrow> bool" where
  "fl_is_inf PosInf = True"
| "fl_is_inf NegInf = True"
| "fl_is_inf x = False"

definition fl_inf :: "bool \<Rightarrow> fl" where
  "fl_inf negative = (if negative then NegInf else PosInf)"

text \<open>An exact finite result; a zero takes the sign the operation gives it.\<close>

definition fl_finite :: "bool \<Rightarrow> real \<Rightarrow> fl" where
  "fl_finite negative r = (if r = 0 then (if negative then NegZero else Fin 0) else Fin r)"

fun fl_neg :: "fl \<Rightarrow> fl" where
  "fl_neg (Fin r) = fl_finite True (- r)"
| "fl_neg NegZero = Fin 0"
| "fl_neg PosInf = NegInf"
| "fl_neg NegInf = PosInf"
| "fl_neg NaN = NaN"

fun fl_add :: "fl \<Rightarrow> fl \<Rightarrow> fl" where
  "fl_add NaN y = NaN"
| "fl_add x NaN = NaN"
| "fl_add PosInf NegInf = NaN"
| "fl_add NegInf PosInf = NaN"
| "fl_add PosInf y = PosInf"
| "fl_add x PosInf = PosInf"
| "fl_add NegInf y = NegInf"
| "fl_add x NegInf = NegInf"
| "fl_add NegZero NegZero = NegZero"
| "fl_add x y = Fin (fl_val x + fl_val y)"

definition fl_sub :: "fl \<Rightarrow> fl \<Rightarrow> fl" where
  "fl_sub x y = fl_add x (fl_neg y)"

definition fl_mul :: "fl \<Rightarrow> fl \<Rightarrow> fl" where
  "fl_mul x y =
     (if x = NaN \<or> y = NaN then NaN
      else if (fl_is_inf x \<and> fl_is_zero y) \<or> (fl_is_zero x \<and> fl_is_inf y) then NaN
      else if fl_is_inf x \<or> fl_is_inf y then fl_inf (fl_sign x \<noteq> fl_sign y)
      else fl_finite (fl_sign x \<noteq> fl_sign y) (fl_val x * fl_val y))"

definition fl_div :: "fl \<Rightarrow> fl \<Rightarrow> fl" where
  "fl_div x y =
     (if x = NaN \<or> y = NaN then NaN
      else if (fl_is_inf x \<and> fl_is_inf y) \<or> (fl_is_zero x \<and> fl_is_zero y) then NaN
      else if fl_is_inf x \<or> fl_is_zero y then fl_inf (fl_sign x \<noteq> fl_sign y)
      else if fl_is_inf y then fl_finite (fl_sign x \<noteq> fl_sign y) 0
      else fl_finite (fl_sign x \<noteq> fl_sign y) (fl_val x / fl_val y))"

fun fl_abs :: "fl \<Rightarrow> fl" where
  "fl_abs (Fin r) = Fin \<bar>r\<bar>"
| "fl_abs NegZero = Fin 0"
| "fl_abs PosInf = PosInf"
| "fl_abs NegInf = PosInf"
| "fl_abs NaN = NaN"

text \<open>Every comparison with NaN is false; the two zeros are equal.\<close>

definition fl_less :: "fl \<Rightarrow> fl \<Rightarrow> bool" where
  "fl_less x y =
     (x \<noteq> NaN \<and> y \<noteq> NaN \<and> x \<noteq> PosInf \<and> y \<noteq> NegInf \<and>
      (x = NegInf \<or> y = PosInf \<or> fl_val x < fl_val y))"

definition fl_greater :: "fl \<Rightarrow> fl \<Rightarrow> bool" where
  "fl_greater x y = fl_less y x"

text \<open>\<^verbatim>\<open>tf.nn.relu\<close> is the larger of the element and zero; a NaN stays a NaN.\<close>

definition fl_relu :: "fl \<Rightarrow> fl" where
  "fl_relu x = (if fl_less x (Fin 0) then Fin 0 else x)"

definition fl_of_bool :: "bool \<Rightarrow> fl" where
  "fl_of_bool b = (if b then Fin 1 else Fin 0)"

text \<open>The mean of no element is \<open>0 / 0\<close>.\<close>

definition fl_mean :: "fl list \<Rightarrow> fl" where
  "fl_mean xs = fl_div (foldl fl_add (Fin 0) xs) (Fin (real (length xs)))"

subsection \<open>Values\<close>

text \<open>
  A value is a matrix, a list of rows; a scalar is the matrix of one row and one
  column, which broadcasts as a scalar does.
\<close>

datatype val = FloatVal "fl list list" | BoolVal "bool list list"

fun sequence :: "(error + 'a) list \<Rightarrow> error + 'a list" where
  "sequence [] = Inr []"
| "sequence (x # xs) =
     (case x of
        Inl e \<Rightarrow> Inl e
      | Inr y \<Rightarrow> (case sequence xs of Inl e \<Rightarrow> Inl e | Inr ys \<Rightarrow> Inr (y # ys)))"

text \<open>Along one axis: equal sizes pair up, a size of 1 is repeated, anything else fails.\<close>

definition broadcast_map ::
  "('a \<Rightarrow> 'b \<Rightarrow> error + 'c) \<Rightarrow> 'a list \<Rightarrow> 'b list \<Rightarrow> error + 'c list" where
  "broadcast_map f xs ys =
     (if length xs = length ys then sequence (map (\<lambda>(x, y). f x y) (zip xs ys))
      else if length xs = 1 then sequence (map (f (hd xs)) ys)
      else if length ys = 1 then sequence (map (\<lambda>x. f x (hd ys)) xs)
      else Inl InvalidArgumentError)"

definition elementwise ::
  "('a \<Rightarrow> 'b \<Rightarrow> 'c) \<Rightarrow> 'a list list \<Rightarrow> 'b list list \<Rightarrow> error + 'c list list" where
  "elementwise f m n = broadcast_map (broadcast_map (\<lambda>x y. Inr (f x y))) m n"

text \<open>
  The values fed for the placeholders, by placeholder name, already converted to the
  placeholder's element type. A fed value must be rectangular and fit the static shape
  the placeholder was declared with.
\<close>

record feed_dict =
  float_feeds :: "string \<Rightarrow> fl list list option"
  bool_feeds :: "string \<Rightarrow> bool list list option"

definition rectangular :: "'a list list \<Rightarrow> bool" where
  "rectangular m = list_all (\<lambda>row. length row = length (hd m)) m"

definition dim_accepts :: "nat option \<Rightarrow> nat \<Rightarrow> bool" where
  "dim_accepts d n = (case d of None \<Rightarrow> True | Some k \<Rightarrow> k = n)"

definition shape_accepts :: "tensor_shape \<Rightarrow> 'a list list \<Rightarrow> bool" where
  "shape_accepts sh m =
     (rectangular m \<and>
      (case sh of
         None \<Rightarrow> True
       | Some dims \<Rightarrow>
           (case dims of
              [rows, cols] \<Rightarrow> dim_accepts rows (length m) \<and> list_all (\<lambda>row. dim_accepts cols (length row)) m
            | _ \<Rightarrow> False)))"

definition feed :: "tensor_shape \<Rightarrow> 'a list list option \<Rightarrow> error + 'a list list" where
  "feed sh v =
     (case v of
        None \<Rightarrow> Inl InvalidArgumentError
      | Some m \<Rightarrow> if shape_accepts sh m then Inr m else Inl ValueError)"

subsection \<open>Kernels of the framework\<close>

text \<open>
  What the layers compute from their variables is the framework's own: the affine map
  \<open>x \<cdot> kernel + bias\<close> of a dense layer at the current values of its variables, batch
  normalisation in the mode given by the training flag, and dropout with its random
  mask. They are parameters here, one function per kernel, told the name scope of the
  layer they belong to. \<open>truncated_normal\<close> is the sampler behind
  \<^verbatim>\<open>tf.truncated_normal_initializer\<close>: the initial kernel of a dense layer, from the
  initializer's standard deviation and seed and the kernel's two dimensions.
\<close>

record 'w framework =
  dense_affine :: "string list \<Rightarrow> nat \<Rightarrow> fl list list \<Rightarrow> error + fl list list"
  batch_norm ::
    "string list \<Rightarrow> bool \<Rightarrow> bool \<Rightarrow> bool list list \<Rightarrow> fl list list \<Rightarrow> error + fl list list"
  dropout :: "string list \<Rightarrow> fl list list \<Rightarrow> fl list list \<Rightarrow> error + fl list list"
  truncated_normal :: "initializer \<Rightarrow> nat option \<Rightarrow> nat \<Rightarrow> 'w"

definition activate :: "activation \<Rightarrow> fl \<Rightarrow> fl" where
  "activate act x = (case act of no_activation \<Rightarrow> x | tf_nn_relu \<Rightarrow> fl_relu x)"

subsection \<open>The evaluator\<close>

definition float_of :: "error + val \<Rightarrow> error + fl list list" where
  "float_of r =
     (case r of
        Inl e \<Rightarrow> Inl e
      | Inr (FloatVal m) \<Rightarrow> Inr m
      | Inr (BoolVal m) \<Rightarrow> Inl InvalidArgumentError)"

definition bool_of :: "error + val \<Rightarrow> error + bool list list" where
  "bool_of r =
     (case r of
        Inl e \<Rightarrow> Inl e
      | Inr (BoolVal m) \<Rightarrow> Inr m
      | Inr (FloatVal m) \<Rightarrow> Inl InvalidArgumentError)"

definition float_result :: "error + fl list list \<Rightarrow> error + val" where
  "float_result r = (case r of Inl e \<Rightarrow> Inl e | Inr m \<Rightarrow> Inr (FloatVal m))"

definition unary :: "(fl \<Rightarrow> fl) \<Rightarrow> error + val \<Rightarrow> error + val" where
  "unary f r = (case float_of r of Inl e \<Rightarrow> Inl e | Inr m \<Rightarrow> Inr (FloatVal (map (map f) m)))"

definition binary :: "(fl \<Rightarrow> fl \<Rightarrow> 'c) \<Rightarrow> error + val \<Rightarrow> error + val \<Rightarrow> error + 'c list list" where
  "binary f rx ry =
     (case float_of rx of
        Inl e \<Rightarrow> Inl e
      | Inr m \<Rightarrow> (case float_of ry of Inl e \<Rightarrow> Inl e | Inr n \<Rightarrow> elementwise f m n))"

fun run :: "'w framework \<Rightarrow> feed_dict \<Rightarrow> tensor \<Rightarrow> error + val"
and run_op ::
  "'w framework \<Rightarrow> feed_dict \<Rightarrow> string list \<Rightarrow> dtype \<Rightarrow> tensor_shape \<Rightarrow> operation \<Rightarrow> error + val"
where
  "run fw fd (Tensor sc dt sh opn) = run_op fw fd sc dt sh opn"
| "run_op fw fd sc dt sh (Placeholder name) =
     (case dt of
        tf_float32 \<Rightarrow> float_result (feed sh (float_feeds fd name))
      | tf_bool \<Rightarrow> (case feed sh (bool_feeds fd name) of Inl e \<Rightarrow> Inl e | Inr m \<Rightarrow> Inr (BoolVal m)))"
| "run_op fw fd sc dt sh (Const c) = Inr (FloatVal [[Fin c]])"
| "run_op fw fd sc dt sh (Dense x units act init) =
     (case float_of (run fw fd x) of
        Inl e \<Rightarrow> Inl e
      | Inr m \<Rightarrow>
          (case dense_affine fw sc units m of
             Inl e \<Rightarrow> Inl e
           | Inr z \<Rightarrow> Inr (FloatVal (map (map (activate act)) z))))"
| "run_op fw fd sc dt sh (BatchNormalization x center scale training) =
     (case float_of (run fw fd x) of
        Inl e \<Rightarrow> Inl e
      | Inr m \<Rightarrow>
          (case bool_of (run fw fd training) of
             Inl e \<Rightarrow> Inl e
           | Inr t \<Rightarrow> float_result (batch_norm fw sc center scale t m)))"
| "run_op fw fd sc dt sh (Dropout x keep_prob) =
     (case float_of (run fw fd x) of
        Inl e \<Rightarrow> Inl e
      | Inr m \<Rightarrow>
          (case float_of (run fw fd keep_prob) of
             Inl e \<Rightarrow> Inl e
           | Inr k \<Rightarrow> float_result (dropout fw sc m k)))"
| "run_op fw fd sc dt sh (Sub x y) = float_result (binary fl_sub (run fw fd x) (run fw fd y))"
| "run_op fw fd sc dt sh (Square x) = unary (\<lambda>v. fl_mul v v) (run fw fd x)"
| "run_op fw fd sc dt sh (Abs x) = unary fl_abs (run fw fd x)"
| "run_op fw fd sc dt sh (RealDiv x y) = float_result (binary fl_div (run fw fd x) (run fw fd y))"
| "run_op fw fd sc dt sh (Greater x y) =
     (case binary fl_greater (run fw fd x) (run fw fd y) of
        Inl e \<Rightarrow> Inl e
      | Inr m \<Rightarrow> Inr (BoolVal m))"
| "run_op fw fd sc dt sh (Cast x) =
     (case run fw fd x of
        Inl e \<Rightarrow> Inl e
      | Inr (FloatVal m) \<Rightarrow>
          (case dt of
             tf_float32 \<Rightarrow> Inr (FloatVal m)
           | tf_bool \<Rightarrow> Inr (BoolVal (map (map (\<lambda>v. \<not> fl_is_zero v)) m)))
      | Inr (BoolVal m) \<Rightarrow>
          (case dt of
             tf_float32 \<Rightarrow> Inr (FloatVal (map (map fl_of_bool) m))
           | tf_bool \<Rightarrow> Inr (BoolVal m)))"
| "run_op fw fd sc dt sh (Mean x) =
     (case float_of (run fw fd x) of
        Inl e \<Rightarrow> Inl e
      | Inr m \<Rightarrow> Inr (FloatVal [[fl_mean (concat m)]]))"

subsection \<open>Initial weights\<close>

text \<open>
  The kernel variable of a dense layer: its initializer, its fan-in (the last static
  dimension of the layer's input, which \<^verbatim>\<open>tf.layers.dense\<close> insists on knowing) and its
  number of units. The initial weights of a graph are what the sampler draws for the
  kernels of its dense layers, in creation order.
\<close>

fun kernel_of :: "tensor \<Rightarrow> (initializer \<times> nat option \<times> nat) option" where
  "kernel_of (Tensor sc dt sh (Dense x units act init)) =
     Some (init, (case get_shape x of None \<Rightarrow> None | Some dims \<Rightarrow> if dims = [] then None else last dims), units)"
| "kernel_of t = None"

definition kernels :: "graph \<Rightarrow> (initializer \<times> nat option \<times> nat) list" where
  "kernels g = List.map_filter kernel_of (operations g)"

definition initial_weights :: "'w framework \<Rightarrow> graph \<Rightarrow> 'w list" where
  "initial_weights fw g =
     map (\<lambda>(init, fan_in, units). truncated_normal fw init fan_in units) (kernels g)"

section \<open>Properties of the builders\<close>

text \<open>
  The initializer \<^verbatim>\<open>dense_relu\<close> makes for an input whose second static dimension is
  \<open>dim_in\<close>.
\<close>

definition he_init :: "int \<Rightarrow> nat \<Rightarrow> initializer" where
  "he_init seed dim_in = truncated_normal_initializer (sqrt (2 / real dim_in)) seed"

text \<open>
  The four placeholders \<^verbatim>\<open>dense_nn\<close> declares, and the graph that holds just them. The
  last definition is a framework to evaluate examples with: every dense layer's affine
  map gives the matrix \<open>z\<close>, batch normalisation and dropout pass their input on, and
  the sampler returns what it was asked to draw.
\<close>

definition ph_inputs :: "nat \<Rightarrow> tensor" where
  "ph_inputs nb_features = Tensor [] tf_float32 (Some [None, Some nb_features]) (Placeholder ''inputs'')"

definition ph_labels :: "nat \<Rightarrow> tensor" where
  "ph_labels nb_labels = Tensor [] tf_float32 (Some [None, Some nb_labels]) (Placeholder ''labels'')"

definition ph_training_phase :: tensor where
  "ph_training_phase = Tensor [] tf_bool None (Placeholder ''training_phase'')"

definition ph_pkeep :: tensor where
  "ph_pkeep = Tensor [] tf_float32 None (Placeholder ''pkeep'')"

definition sampling_framework :: "fl list list \<Rightarrow> (initializer \<times> nat option \<times> nat) framework" where
  "sampling_framework z =
     \<lparr>dense_affine = (\<lambda>sc units m. Inr z),
      batch_norm = (\<lambda>sc center scale training m. Inr m),
      dropout = (\<lambda>sc m keep_prob. Inr m),
      truncated_normal = (\<lambda>init fan_in units. (init, fan_in, units))\<rparr>"

definition graph_of_placeholders :: "nat \<Rightarrow> nat \<Rightarrow> graph" where
  "graph_of_placeholders nb_features nb_labels =
     \<lparr>operations = [ph_inputs nb_features, ph_labels nb_labels, ph_training_phase, ph_pkeep],
      name_stack = [], summaries = []\<rparr>"

text \<open>
  The relative error of one element as the graph computes it, the rate at which the
  elements of a matrix exceed a threshold, and the relative-error matrix from the
  results of running the predictions and the labels.
\<close>

definition relative_error_of :: "fl \<Rightarrow> fl \<Rightarrow> fl" where
  "relative_error_of p l = fl_div (fl_abs (fl_sub p l)) l"

definition exceed_rate :: "real \<Rightarrow> fl list list \<Rightarrow> fl" where
  "exceed_rate c R = fl_mean (map (\<lambda>x. fl_of_bool (fl_greater x (Fin c))) (concat R))"

definition relative_error_run :: "error + val \<Rightarrow> error + val \<Rightarrow> error + fl list list" where
  "relative_error_run rp rl =
     float_of (float_result (binary fl_div (unary fl_abs (float_result (binary fl_sub rp rl))) rl))"

text \<open>Feeds to evaluate examples with, and the graph before anything is built.\<close>

definition example_feed :: "fl list list \<Rightarrow> fl list list \<Rightarrow> feed_dict" where
  "example_feed x y =
     \<lparr>float_feeds = [''inputs'' \<mapsto> x, ''labels'' \<mapsto> y, ''pkeep'' \<mapsto> [[Fin 1]]],
      bool_feeds = [''training_phase'' \<mapsto> [[False]]]\<rparr>"

definition empty_graph :: graph where
  "empty_graph = \<lparr>operations = [], name_stack = [], summaries = []\<rparr>"

subsection \<open>Indexing\<close>

lemma getitem_nth: "i < length xs \<Longrightarrow> getitem xs (int i) = Inr (xs ! i)"
  by (simp add: getitem_def)

lemma getitem_Suc: "Suc i < length xs \<Longrightarrow> getitem xs (int i + 1) = Inr (xs ! Suc i)"
  using getitem_nth[of "Suc i" xs] by (simp add: add.commute)

lemma getitem_last: "xs \<noteq> [] \<Longrightarrow> getitem xs (- 1) = Inr (last xs)"
  by (cases xs rule: rev_cases) (auto simp: getitem_def nth_append)

lemma getitem_empty: "getitem [] i = Inl IndexError"
  by (simp add: getitem_def)

lemma getitem_Inr: "getitem xs i = Inr x \<Longrightarrow> x \<in> set xs"
  by (auto simp: getitem_def split: if_splits)

lemma getitem_one: "getitem dims 1 = Inr x \<longleftrightarrow> 2 \<le> length dims \<and> dims ! 1 = x"
  by (auto simp: getitem_def)

subsection \<open>What the two layer builders return\<close>

lemma dense_relu_ok:
  assumes "get_shape inputs = Some dims" and "2 \<le> length dims"
    and "dims ! 1 = Some dim_in" and "0 < dim_in" and "last dims = Some d"
  shows "dense_relu inputs units seed name g =
     (let t = Tensor (name_stack g @ [name]) tf_float32 (Some (butlast dims @ [Some units]))
                (Dense inputs units tf_nn_relu (he_init seed dim_in))
      in Inr (t, g\<lparr>operations := operations g @ [t]\<rparr>))"
  using assms getitem_nth[of 1 dims]
  by (simp add: dense_relu_def as_list_def truediv_def tf_layers_dense_def create_op_def
      tf_name_scope_enter_def tf_name_scope_exit_def Let_def he_init_def)

lemma dense_relu_inv:
  assumes "dense_relu inputs units seed name g = Inr (t, g')"
  shows "\<exists>dims dim_in d. get_shape inputs = Some dims \<and> 2 \<le> length dims \<and>
           dims ! 1 = Some dim_in \<and> 0 < dim_in \<and> last dims = Some d \<and>
           t = Tensor (name_stack g @ [name]) tf_float32 (Some (butlast dims @ [Some units]))
                 (Dense inputs units tf_nn_relu (he_init seed dim_in)) \<and>
           g' = g\<lparr>operations := operations g @ [t]\<rparr>"
  using assms
  by (auto simp: dense_relu_def as_list_def truediv_def tf_layers_dense_def create_op_def
      tf_name_scope_enter_def tf_name_scope_exit_def Let_def he_init_def getitem_one
      split: option.splits sum.splits if_splits)

lemma dense_relu_bn_drop_ok:
  assumes "get_shape inputs = Some dims" and "2 \<le> length dims"
    and "dims ! 1 = Some dim_in" and "0 < dim_in" and "last dims = Some d"
  shows "dense_relu_bn_drop inputs units seed training_phase pkeep name g =
     (let sh = Some (butlast dims @ [Some units]);
          l1 = Tensor (name_stack g @ [name, ''dense_relu'']) tf_float32 sh
                (Dense inputs units tf_nn_relu (he_init seed dim_in));
          l2 = Tensor (name_stack g @ [name]) tf_float32 sh
                (BatchNormalization l1 True True training_phase);
          output = Tensor (name_stack g @ [name]) tf_float32 sh (Dropout l2 pkeep)
      in Inr (output, g\<lparr>operations := operations g @ [l1, l2, output]\<rparr>))"
  using assms
  by (simp add: dense_relu_bn_drop_def dense_relu_ok[OF assms] tf_layers_batch_normalization_def
      tf_nn_dropout_def create_op_def tf_name_scope_enter_def tf_name_scope_exit_def Let_def)

lemma dense_relu_bn_drop_inv:
  assumes "dense_relu_bn_drop inputs units seed training_phase pkeep name g = Inr (output, g')"
  shows "\<exists>dims dim_in d l1 l2. get_shape inputs = Some dims \<and> 2 \<le> length dims \<and>
           dims ! 1 = Some dim_in \<and> 0 < dim_in \<and> last dims = Some d \<and>
           l1 = Tensor (name_stack g @ [name, ''dense_relu'']) tf_float32
                  (Some (butlast dims @ [Some units]))
                  (Dense inputs units tf_nn_relu (he_init seed dim_in)) \<and>
           l2 = Tensor (name_stack g @ [name]) tf_float32 (Some (butlast dims @ [Some units]))
                  (BatchNormalization l1 True True training_phase) \<and>
           output = Tensor (name_stack g @ [name]) tf_float32
                  (Some (butlast dims @ [Some units])) (Dropout l2 pkeep) \<and>
           g' = g\<lparr>operations := operations g @ [l1, l2, output]\<rparr>"
proof -
  from assms obtain l1 g1 where
    d: "dense_relu inputs units seed ''dense_relu'' (tf_name_scope_enter name g) = Inr (l1, g1)"
    by (auto simp: dense_relu_bn_drop_def split: sum.splits)
  from dense_relu_inv[OF d] obtain dims dim_in d0 where
    h: "get_shape inputs = Some dims" "2 \<le> length dims" "dims ! 1 = Some dim_in" "0 < dim_in"
      "last dims = Some d0"
    by blast
  from assms show ?thesis
    unfolding dense_relu_bn_drop_ok[OF h] Let_def using h by auto
qed


subsection \<open>The standard deviation of the initializer\<close>

lemma abs_within:
  fixes s :: real
  assumes "c - e < s" and "s < c + e"
  shows "\<bar>s - c\<bar> < e"
  using assms by (simp only: abs_less_iff) linarith

lemma stddev_10: "\<bar>sqrt (2 / real 10) - 0.4472\<bar> < 0.00005"
proof (rule abs_within)
  show "0.4472 - 0.00005 < sqrt (2 / real 10)"
    by (rule real_less_rsqrt) (simp add: power2_eq_square)
  show "sqrt (2 / real 10) < 0.4472 + 0.00005"
    by (rule real_less_lsqrt) (simp_all add: power2_eq_square)
qed

lemma stddev_256: "\<bar>sqrt (2 / real 256) - 0.0884\<bar> < 0.00005"
proof (rule abs_within)
  show "0.0884 - 0.00005 < sqrt (2 / real 256)"
    by (rule real_less_rsqrt) (simp add: power2_eq_square)
  show "sqrt (2 / real 256) < 0.0884 + 0.00005"
    by (rule real_less_lsqrt) (simp_all add: power2_eq_square)
qed

text \<open>
  C2. When the second static dimension \<open>dim_in\<close> of the input is known and positive (and
  the framework accepts the input: its last dimension is known), \<^verbatim>\<open>dense_relu\<close>
  returns a dense layer with ReLU activation whose kernel initializer is the truncated
  normal one with standard deviation \<open>sqrt (2 / dim_in)\<close> and the given seed; for
  \<open>dim_in = 10\<close> that is 0.4472 and for \<open>dim_in = 256\<close> it is 0.0884, to four places.
\<close>

theorem dense_relu_he_initializer:
  assumes "get_shape inputs = Some dims" and "getitem dims 1 = Inr (Some dim_in)"
    and "0 < dim_in" and "last dims \<noteq> None"
  shows "\<exists>layer g' init.
           dense_relu inputs units seed name g = Inr (layer, g') \<and>
           tensor_op layer = Dense inputs units tf_nn_relu init \<and>
           init = truncated_normal_initializer (sqrt (2 / real dim_in)) seed \<and>
           (dim_in = 10 \<longrightarrow> \<bar>stddev init - 0.4472\<bar> < 0.00005) \<and>
           (dim_in = 256 \<longrightarrow> \<bar>stddev init - 0.0884\<bar> < 0.00005)"
proof -
  from assms(2) have r: "2 \<le> length dims" "dims ! 1 = Some dim_in"
    by (simp_all add: getitem_one)
  from assms(4) obtain d where l: "last dims = Some d" by auto
  let ?init = "truncated_normal_initializer (sqrt (2 / real dim_in)) seed"
  let ?layer = "Tensor (name_stack g @ [name]) tf_float32 (Some (butlast dims @ [Some units]))
                  (Dense inputs units tf_nn_relu ?init)"
  have "dense_relu inputs units seed name g =
          Inr (?layer, g\<lparr>operations := operations g @ [?layer]\<rparr>)"
    unfolding dense_relu_ok[OF assms(1) r assms(3) l] Let_def he_init_def by (rule refl)
  moreover have "tensor_op ?layer = Dense inputs units tf_nn_relu ?init"
    by (simp only: tensor.sel)
  moreover have "dim_in = 10 \<longrightarrow> \<bar>stddev ?init - 0.4472\<bar> < 0.00005"
    using stddev_10 by (simp only: initializer.sel) blast
  moreover have "dim_in = 256 \<longrightarrow> \<bar>stddev ?init - 0.0884\<bar> < 0.00005"
    using stddev_256 by (simp only: initializer.sel) blast
  ultimately show ?thesis by blast
qed

theorem dense_relu_he_initializer_witness:
  "\<exists>layer g' init.
     dense_relu (Tensor [] tf_float32 (Some [None, Some 10]) (Placeholder ''inputs'')) 3 7
       ''dense_relu'' \<lparr>operations = [], name_stack = [], summaries = []\<rparr> = Inr (layer, g') \<and>
     tensor_op layer =
       Dense (Tensor [] tf_float32 (Some [None, Some 10]) (Placeholder ''inputs'')) 3 tf_nn_relu init \<and>
     seed_of init = 7 \<and> \<bar>stddev init - 0.4472\<bar> < 0.00005"
proof -
  let ?x = "Tensor [] tf_float32 (Some [None, Some 10]) (Placeholder ''inputs'')"
  have 1: "get_shape ?x = Some [None, Some 10]" by simp
  have 2: "getitem [None, Some (10::nat)] 1 = Inr (Some 10)" by (simp add: getitem_def)
  have 3: "(0::nat) < 10" by simp
  have 4: "last [None, Some (10::nat)] \<noteq> None" by simp
  from dense_relu_he_initializer[OF 1 2 3 4, of 3 7 "''dense_relu''"
      "\<lparr>operations = [], name_stack = [], summaries = []\<rparr>"]
  obtain layer g' init where
    "dense_relu ?x 3 7 ''dense_relu'' \<lparr>operations = [], name_stack = [], summaries = []\<rparr>
       = Inr (layer, g')"
    "tensor_op layer = Dense ?x 3 tf_nn_relu init"
    "init = truncated_normal_initializer (sqrt (2 / real 10)) 7"
    "\<bar>stddev init - 0.4472\<bar> < 0.00005"
    by blast
  moreover from this(3) have "seed_of init = 7" by (simp only: initializer.sel)
  ultimately show ?thesis by blast
qed

text \<open>
  C3. Whenever \<^verbatim>\<open>dense_relu_bn_drop\<close> returns, it has added exactly three operations to
  the graph, in this order: the dense layer with ReLU activation on the input, batch
  normalisation (centred and scaled, its mode given by the training flag) of that
  layer's output, and dropout with the given keep probability on the normalised
  output, which is what it returns. It does return for every input \<^verbatim>\<open>dense_relu\<close>
  accepts.
\<close>

theorem dense_relu_bn_drop_order:
  "(dense_relu_bn_drop inputs units seed training_phase pkeep name g = Inr (output, g') \<longrightarrow>
      (\<exists>l1 l2 init.
         operations g' = operations g @ [l1, l2, output] \<and>
         tensor_op l1 = Dense inputs units tf_nn_relu init \<and>
         tensor_op l2 = BatchNormalization l1 True True training_phase \<and>
         tensor_op output = Dropout l2 pkeep)) \<and>
   (get_shape inputs = Some dims \<and> getitem dims 1 = Inr (Some dim_in) \<and> 0 < dim_in \<and>
    last dims \<noteq> None \<longrightarrow>
      (\<exists>out h. dense_relu_bn_drop inputs units seed training_phase pkeep name g = Inr (out, h)))"
proof (intro conjI impI)
  assume "dense_relu_bn_drop inputs units seed training_phase pkeep name g = Inr (output, g')"
  from dense_relu_bn_drop_inv[OF this] show
    "\<exists>l1 l2 init.
         operations g' = operations g @ [l1, l2, output] \<and>
         tensor_op l1 = Dense inputs units tf_nn_relu init \<and>
         tensor_op l2 = BatchNormalization l1 True True training_phase \<and>
         tensor_op output = Dropout l2 pkeep"
    by auto
next
  assume a: "get_shape inputs = Some dims \<and> getitem dims 1 = Inr (Some dim_in) \<and> 0 < dim_in \<and>
    last dims \<noteq> None"
  then obtain d where l: "last dims = Some d" by auto
  from a have r: "2 \<le> length dims" "dims ! 1 = Some dim_in" by (simp_all add: getitem_one)
  from a have s: "get_shape inputs = Some dims" and p: "0 < dim_in" by simp_all
  show "\<exists>out h. dense_relu_bn_drop inputs units seed training_phase pkeep name g = Inr (out, h)"
    unfolding dense_relu_bn_drop_ok[OF s r p l] Let_def by simp
qed

theorem dense_relu_bn_drop_order_witness:
  "\<exists>out h l1 l2 init.
     dense_relu_bn_drop (Tensor [] tf_float32 (Some [None, Some 4]) (Placeholder ''inputs'')) 3 7
       (Tensor [] tf_bool None (Placeholder ''training_phase''))
       (Tensor [] tf_float32 None (Placeholder ''pkeep'')) ''dense_hidden_0''
       \<lparr>operations = [], name_stack = [], summaries = []\<rparr> = Inr (out, h) \<and>
     operations h = [l1, l2, out] \<and>
     tensor_op l1 =
       Dense (Tensor [] tf_float32 (Some [None, Some 4]) (Placeholder ''inputs'')) 3 tf_nn_relu init \<and>
     tensor_op l2 =
       BatchNormalization l1 True True (Tensor [] tf_bool None (Placeholder ''training_phase'')) \<and>
     tensor_op out = Dropout l2 (Tensor [] tf_float32 None (Placeholder ''pkeep''))"
proof -
  let ?x = "Tensor [] tf_float32 (Some [None, Some 4]) (Placeholder ''inputs'')"
  let ?tp = "Tensor [] tf_bool None (Placeholder ''training_phase'')"
  let ?pk = "Tensor [] tf_float32 None (Placeholder ''pkeep'')"
  let ?g = "\<lparr>operations = [], name_stack = [], summaries = []\<rparr>"
  have a: "get_shape ?x = Some [None, Some 4] \<and> getitem [None, Some (4::nat)] 1 = Inr (Some 4) \<and>
           (0::nat) < 4 \<and> last [None, Some (4::nat)] \<noteq> None"
    by (simp add: getitem_def)
  from dense_relu_bn_drop_order[of ?x 3 7 ?tp ?pk "''dense_hidden_0''" ?g undefined undefined
      "[None, Some 4]" 4] a
  obtain out h where r: "dense_relu_bn_drop ?x 3 7 ?tp ?pk ''dense_hidden_0'' ?g = Inr (out, h)"
    by blast
  from dense_relu_bn_drop_order[of ?x 3 7 ?tp ?pk "''dense_hidden_0''" ?g out h
      "[None, Some 4]" 4] r
  obtain l1 l2 init where
    "operations h = operations ?g @ [l1, l2, out]"
    "tensor_op l1 = Dense ?x 3 tf_nn_relu init"
    "tensor_op l2 = BatchNormalization l1 True True ?tp"
    "tensor_op out = Dropout l2 ?pk"
    by blast
  with r show ?thesis by auto
qed

section \<open>Properties of the assembler\<close>

subsection \<open>The steps of the assembler\<close>

lemma dense_nn_unfold:
  "dense_nn nf ls nl seed g =
     (case getitem ls 0 of
        Inl e \<Rightarrow> Inl e
      | Inr units_0 \<Rightarrow>
     (case dense_relu_bn_drop (ph_inputs nf) units_0 seed ph_training_phase ph_pkeep
             ''dense_hidden_0'' (graph_of_placeholders nf nl) of
        Inl e \<Rightarrow> Inl e
      | Inr (first_layer, g5) \<Rightarrow>
     (case hidden_loop [0..<length ls - 1] [first_layer] ls seed ph_training_phase ph_pkeep g5 of
        Inl e \<Rightarrow> Inl e
      | Inr (layers, g6) \<Rightarrow>
     (case getitem layers (- 1) of
        Inl e \<Rightarrow> Inl e
      | Inr last_layer \<Rightarrow>
     (case dense_relu last_layer nl seed ''predictions'' g6 of
        Inl e \<Rightarrow> Inl e
      | Inr (prediction_layer, g7) \<Rightarrow>
     (case add_loss prediction_layer (ph_labels nl) g7 of
        Inl e \<Rightarrow> Inl e
      | Inr (loss, g8) \<Rightarrow>
     (case add_accuracy prediction_layer (ph_labels nl) g8 of
        Inl e \<Rightarrow> Inl e
      | Inr ((err_2pc, err_1pc), g9) \<Rightarrow>
          Inr (\<lparr>nn_inputs = ph_inputs nf, nn_labels = ph_labels nl, nn_pkeep = ph_pkeep,
                nn_training_phase = ph_training_phase, nn_predictions = prediction_layer,
                nn_loss = loss, nn_err_2pc = err_2pc, nn_err_1pc = err_1pc\<rparr>, g9))))))))"
  unfolding dense_nn_def tf_placeholder_def create_op_def tf_reset_default_graph_def Let_def
      ph_inputs_def ph_labels_def ph_training_phase_def ph_pkeep_def graph_of_placeholders_def
  by (simp cong: sum.case_cong)

lemma dense_nn_inv:
  assumes "dense_nn nf ls nl seed g = Inr (nn, h)"
  shows "\<exists>units_0 first_layer g5 layers g6 last_layer g7 loss g8.
     getitem ls 0 = Inr units_0 \<and>
     dense_relu_bn_drop (ph_inputs nf) units_0 seed ph_training_phase ph_pkeep
        ''dense_hidden_0'' (graph_of_placeholders nf nl) = Inr (first_layer, g5) \<and>
     hidden_loop [0..<length ls - 1] [first_layer] ls seed ph_training_phase ph_pkeep g5
        = Inr (layers, g6) \<and>
     getitem layers (- 1) = Inr last_layer \<and>
     dense_relu last_layer nl seed ''predictions'' g6 = Inr (nn_predictions nn, g7) \<and>
     add_loss (nn_predictions nn) (ph_labels nl) g7 = Inr (loss, g8) \<and>
     add_accuracy (nn_predictions nn) (ph_labels nl) g8 = Inr ((nn_err_2pc nn, nn_err_1pc nn), h) \<and>
     nn_inputs nn = ph_inputs nf \<and> nn_labels nn = ph_labels nl \<and> nn_pkeep nn = ph_pkeep \<and>
     nn_training_phase nn = ph_training_phase \<and> nn_loss nn = loss"
  using assms unfolding dense_nn_unfold
  by (auto split: sum.splits prod.splits)


subsection \<open>Kernels and the loss and error operations\<close>

lemma kernels_append:
  "kernels (g\<lparr>operations := operations g @ ts\<rparr>) = kernels g @ List.map_filter kernel_of ts"
  by (simp add: kernels_def map_filter_def)

lemma kernels_Dense:
  assumes "t \<in> set (operations g)" and "tensor_op t = Dense x u a i"
  shows "\<exists>d. (i, d, u) \<in> set (kernels g)"
proof -
  obtain sc dt sh where t: "t = Tensor sc dt sh (Dense x u a i)"
    using assms(2) by (cases t) simp
  have "kernel_of t \<noteq> None" and "fst (the (kernel_of t)) = i" and "snd (snd (the (kernel_of t))) = u"
    by (simp_all add: t)
  then obtain d where "kernel_of t = Some (i, d, u)" by (cases "kernel_of t") auto
  with assms(1) have "(i, d, u) \<in> set (kernels g)"
    by (force simp: kernels_def map_filter_def)
  then show ?thesis ..
qed

lemmas metric_defs = add_loss_def add_accuracy_def add_error_rate_def tf_subtract_def
  tf_divide_def tf_greater_def tf_constant_def tf_square_def tf_abs_def tf_cast_def
  tf_reduce_mean_def tf_summary_scalar_def binary_op_def create_op_def
  tf_name_scope_enter_def tf_name_scope_exit_def Let_def

lemma broadcast_same: "broadcast_shape (Some [None, Some n]) (Some [None, Some n]) = Inr (Some [None, Some n])"
  by (simp add: broadcast_shape_def)

lemma broadcast_scalar: "broadcast_shape (Some [None, Some n]) (Some []) = Inr (Some [None, Some n])"
  by (simp add: broadcast_shape_def)

lemma add_loss_kernels:
  assumes "add_loss P L g = Inr (loss, g')"
  shows "kernels g' = kernels g"
  using assms by (auto simp: metric_defs kernels_def map_filter_def split: sum.splits)

lemma add_accuracy_kernels:
  assumes "add_accuracy P L g = Inr (errs, g')"
  shows "kernels g' = kernels g"
  using assms by (auto simp: metric_defs kernels_def map_filter_def split: sum.splits)

lemma add_loss_ok:
  assumes "get_shape P = Some [None, Some n]" and "get_shape L = Some [None, Some n]"
  shows "\<exists>loss g'. add_loss P L g = Inr (loss, g')"
  using assms by (simp add: metric_defs broadcast_same)

lemma add_accuracy_ok:
  assumes "get_shape P = Some [None, Some n]" and "get_shape L = Some [None, Some n]"
  shows "\<exists>errs g'. add_accuracy P L g = Inr (errs, g')"
  using assms by (simp add: metric_defs broadcast_same broadcast_scalar)


subsection \<open>The loop over the hidden layers\<close>

lemma last_nth_Suc: "length xs = Suc k \<Longrightarrow> last xs = xs ! k"
  by (cases xs rule: rev_cases) (simp_all add: nth_append)

lemma zip_drop_step:
  assumes "Suc k < length ls"
  shows "zip (drop k (butlast ls)) (drop (Suc k) ls) =
           (ls ! k, ls ! Suc k) # zip (drop (Suc k) (butlast ls)) (drop (Suc (Suc k)) ls)"
proof -
  have "k < length (butlast ls)" using assms by simp
  then have "drop k (butlast ls) = butlast ls ! k # drop (Suc k) (butlast ls)"
    by (simp add: Cons_nth_drop_Suc)
  moreover have "butlast ls ! k = ls ! k" using assms by (simp add: nth_butlast)
  moreover have "drop (Suc k) ls = ls ! Suc k # drop (Suc (Suc k)) ls"
    using assms by (simp add: Cons_nth_drop_Suc)
  ultimately show ?thesis by simp
qed

lemma hidden_loop_char:
  assumes "hidden_loop [k..<length ls - 1] layers ls seed tp pk g = Inr (layers', g')"
    and "length layers = Suc k" and "k < length ls"
    and "get_shape (last layers) = Some [None, Some (ls ! k)]"
    and "\<exists>l2. tensor_op (last layers) = Dropout l2 pk"
  shows "layers' \<noteq> [] \<and> get_shape (last layers') = Some [None, Some (last ls)] \<and>
         (\<exists>l2. tensor_op (last layers') = Dropout l2 pk) \<and>
         name_stack g' = name_stack g \<and>
         kernels g' = kernels g @
           map (\<lambda>(d, u). (he_init seed d, Some d, u)) (zip (drop k (butlast ls)) (drop (Suc k) ls))"
  using assms
proof (induction "length ls - 1 - k" arbitrary: k layers g)
  case 0
  then have k: "k = length ls - 1" by simp
  with 0 have "layers' = layers" "g' = g" by simp_all
  moreover have "last ls = ls ! k" using 0(4) k by (intro last_nth_Suc) simp
  moreover have "drop k (butlast ls) = []" using k by simp
  ultimately show ?case using 0 by auto
next
  case (Suc n)
  then have k: "Suc k < length ls" by simp
  then have upt: "[k..<length ls - 1] = k # [Suc k..<length ls - 1]"
    by (simp add: upt_conv_Cons)
  have li: "getitem layers (int k) = Inr (last layers)"
    using Suc.prems(2) getitem_nth[of k layers] by (simp add: last_nth_Suc)
  have ui: "getitem ls (int k + 1) = Inr (ls ! Suc k)"
    using k by (rule getitem_Suc)
  from Suc.prems(1) obtain out g1 where
    b: "dense_relu_bn_drop (last layers) (ls ! Suc k) seed tp pk
          (''dense_hidden_'' @ str (k + 1)) g = Inr (out, g1)"
    and r: "hidden_loop [Suc k..<length ls - 1] (layers @ [out]) ls seed tp pk g1 = Inr (layers', g')"
    unfolding upt by (auto simp: li ui split: sum.splits)
  from dense_relu_bn_drop_inv[OF b] Suc.prems(4)
  obtain l1 l2 where
    l1: "l1 = Tensor (name_stack g @ [''dense_hidden_'' @ str (k + 1), ''dense_relu'']) tf_float32
               (Some [None, Some (ls ! Suc k)])
               (Dense (last layers) (ls ! Suc k) tf_nn_relu (he_init seed (ls ! k)))"
    and l2: "l2 = Tensor (name_stack g @ [''dense_hidden_'' @ str (k + 1)]) tf_float32
               (Some [None, Some (ls ! Suc k)]) (BatchNormalization l1 True True tp)"
    and out: "out = Tensor (name_stack g @ [''dense_hidden_'' @ str (k + 1)]) tf_float32
               (Some [None, Some (ls ! Suc k)]) (Dropout l2 pk)"
    and g1: "g1 = g\<lparr>operations := operations g @ [l1, l2, out]\<rparr>"
    by auto
  have "n = length ls - 1 - Suc k" using Suc.hyps(2) by simp
  from Suc.hyps(1)[OF this r] Suc.prems(2) k out
  have ih: "layers' \<noteq> [] \<and> get_shape (last layers') = Some [None, Some (last ls)] \<and>
         (\<exists>l2. tensor_op (last layers') = Dropout l2 pk) \<and>
         name_stack g' = name_stack g1 \<and>
         kernels g' = kernels g1 @
           map (\<lambda>(d, u). (he_init seed d, Some d, u))
             (zip (drop (Suc k) (butlast ls)) (drop (Suc (Suc k)) ls))"
    by simp
  have kg1: "kernels g1 = kernels g @ [(he_init seed (ls ! k), Some (ls ! k), ls ! Suc k)]"
    unfolding g1 kernels_append using Suc.prems(4)
    by (simp add: map_filter_def l1 l2 out)
  have "name_stack g1 = name_stack g" by (simp add: g1)
  with ih kg1 show ?case by (simp add: zip_drop_step[OF k])
qed

lemma hidden_loop_ok:
  assumes "\<forall>u\<in>set ls. 0 < u"
    and "length layers = Suc k" and "k < length ls"
    and "get_shape (last layers) = Some [None, Some (ls ! k)]"
  shows "\<exists>layers' g'. hidden_loop [k..<length ls - 1] layers ls seed tp pk g = Inr (layers', g')"
  using assms(2-)
proof (induction "length ls - 1 - k" arbitrary: k layers g)
  case 0
  then show ?case by simp
next
  case (Suc n)
  then have k: "Suc k < length ls" by simp
  then have upt: "[k..<length ls - 1] = k # [Suc k..<length ls - 1]"
    by (simp add: upt_conv_Cons)
  have li: "getitem layers (int k) = Inr (last layers)"
    using Suc.prems(1) getitem_nth[of k layers] by (simp add: last_nth_Suc)
  have ui: "getitem ls (int k + 1) = Inr (ls ! Suc k)"
    using k by (rule getitem_Suc)
  have pos: "0 < ls ! k" using assms(1) Suc.prems(2) by simp
  have two: "2 \<le> length [None, Some (ls ! k)]" "[None, Some (ls ! k)] ! 1 = Some (ls ! k)"
    "last [None, Some (ls ! k)] = Some (ls ! k)" by simp_all
  from dense_relu_bn_drop_ok[OF Suc.prems(3) two(1,2) pos two(3), of "ls ! Suc k" seed tp pk
      "''dense_hidden_'' @ str (k + 1)" g]
  obtain out g1 where
    b: "dense_relu_bn_drop (last layers) (ls ! Suc k) seed tp pk
          (''dense_hidden_'' @ str (k + 1)) g = Inr (out, g1)"
    and sh: "get_shape out = Some [None, Some (ls ! Suc k)]"
    by (simp add: Let_def)
  have n: "n = length ls - 1 - Suc k" using Suc.hyps(2) by simp
  have "length (layers @ [out]) = Suc (Suc k)" using Suc.prems(1) by simp
  moreover have "get_shape (last (layers @ [out])) = Some [None, Some (ls ! Suc k)]"
    using sh by simp
  ultimately obtain layers' g' where
    r: "hidden_loop [Suc k..<length ls - 1] (layers @ [out]) ls seed tp pk g1 = Inr (layers', g')"
    using Suc.hyps(1)[OF n _ k] by blast
  have "hidden_loop (k # [Suc k..<length ls - 1]) layers ls seed tp pk g =
          hidden_loop [Suc k..<length ls - 1] (layers @ [out]) ls seed tp pk g1"
    by (simp only: hidden_loop.simps li ui b sum.case prod.case)
  with r show ?case unfolding upt by simp
qed


subsection \<open>The assembled graph\<close>

lemma zip_shifted:
  "ls \<noteq> [] \<Longrightarrow>
     zip (a # ls) (ls @ [b]) = (a, hd ls) # zip (butlast ls) (tl ls) @ [(last ls, b)]"
proof (induction ls arbitrary: a)
  case Nil
  then show ?case by simp
next
  case (Cons x xs)
  show ?case
  proof (cases xs)
    case Nil
    then show ?thesis by simp
  next
    case (Cons y ys)
    with Cons.IH[of x] show ?thesis by simp
  qed
qed

lemma kernels_placeholders: "kernels (graph_of_placeholders nf nl) = []"
  by (simp add: kernels_def map_filter_def graph_of_placeholders_def ph_inputs_def ph_labels_def
      ph_training_phase_def ph_pkeep_def)

lemma dense_nn_char:
  assumes "dense_nn nf ls nl seed g = Inr (nn, h)"
  shows "ls \<noteq> [] \<and>
         kernels h = map (\<lambda>(d, u). (he_init seed d, Some d, u)) (zip (nf # ls) (ls @ [nl])) \<and>
         (\<exists>x l2. tensor_op (nn_predictions nn) = Dense x nl tf_nn_relu (he_init seed (last ls)) \<and>
                 tensor_op x = Dropout l2 ph_pkeep \<and> get_shape x = Some [None, Some (last ls)]) \<and>
         get_shape (nn_predictions nn) = Some [None, Some nl]"
proof -
  from dense_nn_inv[OF assms] obtain units_0 first_layer g5 layers g6 last_layer g7 loss g8 where
    u0: "getitem ls 0 = Inr units_0"
    and fl: "dense_relu_bn_drop (ph_inputs nf) units_0 seed ph_training_phase ph_pkeep
        ''dense_hidden_0'' (graph_of_placeholders nf nl) = Inr (first_layer, g5)"
    and lp: "hidden_loop [0..<length ls - 1] [first_layer] ls seed ph_training_phase ph_pkeep g5
        = Inr (layers, g6)"
    and ll: "getitem layers (- 1) = Inr last_layer"
    and pr: "dense_relu last_layer nl seed ''predictions'' g6 = Inr (nn_predictions nn, g7)"
    and lo: "add_loss (nn_predictions nn) (ph_labels nl) g7 = Inr (loss, g8)"
    and ac: "add_accuracy (nn_predictions nn) (ph_labels nl) g8
               = Inr ((nn_err_2pc nn, nn_err_1pc nn), h)"
    by blast
  from u0 have ne: "ls \<noteq> []" and u0': "units_0 = ls ! 0"
    by (auto simp: getitem_def split: if_splits)
  have shi: "get_shape (ph_inputs nf) = Some [None, Some nf]" by (simp add: ph_inputs_def)
  from dense_relu_bn_drop_inv[OF fl] shi obtain l1 l2 where
    l1: "l1 = Tensor (name_stack (graph_of_placeholders nf nl) @ [''dense_hidden_0'', ''dense_relu''])
               tf_float32 (Some [None, Some units_0])
               (Dense (ph_inputs nf) units_0 tf_nn_relu (he_init seed nf))"
    and l2: "l2 = Tensor (name_stack (graph_of_placeholders nf nl) @ [''dense_hidden_0'']) tf_float32
               (Some [None, Some units_0]) (BatchNormalization l1 True True ph_training_phase)"
    and first: "first_layer = Tensor (name_stack (graph_of_placeholders nf nl) @ [''dense_hidden_0''])
               tf_float32 (Some [None, Some units_0]) (Dropout l2 ph_pkeep)"
    and g5: "g5 = (graph_of_placeholders nf nl)\<lparr>operations :=
               operations (graph_of_placeholders nf nl) @ [l1, l2, first_layer]\<rparr>"
    by auto
  have k5: "kernels g5 = [(he_init seed nf, Some nf, hd ls)]"
    unfolding g5 kernels_append kernels_placeholders using ne
    by (simp add: map_filter_def l1 l2 first ph_inputs_def u0' hd_conv_nth)
  have "length [first_layer] = Suc 0" "0 < length ls"
    "get_shape (last [first_layer]) = Some [None, Some (ls ! 0)]"
    "\<exists>l2. tensor_op (last [first_layer]) = Dropout l2 ph_pkeep"
    using ne by (simp_all add: first u0')
  from hidden_loop_char[OF lp this] have
    lne: "layers \<noteq> []" and lsh: "get_shape (last layers) = Some [None, Some (last ls)]"
    and ldr: "\<exists>l2. tensor_op (last layers) = Dropout l2 ph_pkeep"
    and k6: "kernels g6 = kernels g5 @
           map (\<lambda>(d, u). (he_init seed d, Some d, u)) (zip (butlast ls) (tl ls))"
    by (simp_all add: drop_Suc)
  from ll lne have last_layer: "last_layer = last layers" by (simp add: getitem_last)
  from dense_relu_inv[OF pr] lsh have
    P: "nn_predictions nn = Tensor (name_stack g6 @ [''predictions'']) tf_float32
          (Some [None, Some nl]) (Dense last_layer nl tf_nn_relu (he_init seed (last ls)))"
    and g7: "g7 = g6\<lparr>operations := operations g6 @ [nn_predictions nn]\<rparr>"
    by (auto simp: last_layer)
  have k7: "kernels g7 = kernels g6 @ [(he_init seed (last ls), Some (last ls), nl)]"
    by (subst g7, subst kernels_append, subst P) (simp add: map_filter_def last_layer lsh)
  have "kernels h = kernels g7"
    using add_accuracy_kernels[OF ac] add_loss_kernels[OF lo] by simp
  then have "kernels h = map (\<lambda>(d, u). (he_init seed d, Some d, u)) (zip (nf # ls) (ls @ [nl]))"
    by (simp add: k7 k6 k5 zip_shifted[OF ne])
  moreover have "\<exists>x l2. tensor_op (nn_predictions nn) = Dense x nl tf_nn_relu (he_init seed (last ls)) \<and>
                 tensor_op x = Dropout l2 ph_pkeep \<and> get_shape x = Some [None, Some (last ls)]"
    using ldr lsh by (subst P) (auto simp: last_layer)
  moreover have "get_shape (nn_predictions nn) = Some [None, Some nl]" by (subst P) simp
  ultimately show ?thesis using ne by blast
qed

lemma dense_nn_ok:
  assumes "ls \<noteq> []" and "0 < nf" and "\<forall>u\<in>set ls. 0 < u"
  shows "\<exists>nn h. dense_nn nf ls nl seed g = Inr (nn, h)"
proof -
  have u0: "getitem ls 0 = Inr (ls ! 0)" using assms(1) by (simp add: getitem_def)
  have shi: "get_shape (ph_inputs nf) = Some [None, Some nf]" by (simp add: ph_inputs_def)
  have two: "2 \<le> length [None, Some (d::nat)]" "[None, Some d] ! 1 = Some d"
    "last [None, Some d] = Some d" for d by simp_all
  from dense_relu_bn_drop_ok[OF shi two(1,2) assms(2) two(3), of "ls ! 0" seed ph_training_phase
      ph_pkeep "''dense_hidden_0''" "graph_of_placeholders nf nl"]
  obtain first_layer g5 where
    fl: "dense_relu_bn_drop (ph_inputs nf) (ls ! 0) seed ph_training_phase ph_pkeep
        ''dense_hidden_0'' (graph_of_placeholders nf nl) = Inr (first_layer, g5)"
    and fsh: "get_shape first_layer = Some [None, Some (ls ! 0)]"
    and fdr: "\<exists>l2. tensor_op first_layer = Dropout l2 ph_pkeep"
    by (simp add: Let_def)
  have pre: "length [first_layer] = Suc 0" "0 < length ls"
    "get_shape (last [first_layer]) = Some [None, Some (ls ! 0)]"
    "\<exists>l2. tensor_op (last [first_layer]) = Dropout l2 ph_pkeep"
    using assms(1) fsh fdr by simp_all
  from hidden_loop_ok[OF assms(3) pre(1-3)] obtain layers g6 where
    lp: "hidden_loop [0..<length ls - 1] [first_layer] ls seed ph_training_phase ph_pkeep g5
        = Inr (layers, g6)"
    by blast
  from hidden_loop_char[OF lp pre] have
    lne: "layers \<noteq> []" and lsh: "get_shape (last layers) = Some [None, Some (last ls)]"
    by simp_all
  have ll: "getitem layers (- 1) = Inr (last layers)" using lne by (rule getitem_last)
  have lpos: "0 < last ls" using assms(1,3) by simp
  from dense_relu_ok[OF lsh two(1,2) lpos two(3), of nl seed "''predictions''" g6]
  obtain P g7 where
    pr: "dense_relu (last layers) nl seed ''predictions'' g6 = Inr (P, g7)"
    and psh: "get_shape P = Some [None, Some nl]"
    by (simp add: Let_def)
  have lsh': "get_shape (ph_labels nl) = Some [None, Some nl]" by (simp add: ph_labels_def)
  from add_loss_ok[OF psh lsh'] obtain loss g8 where
    lo: "add_loss P (ph_labels nl) g7 = Inr (loss, g8)" by blast
  from add_accuracy_ok[OF psh lsh'] obtain errs g9 where
    ac: "add_accuracy P (ph_labels nl) g8 = Inr (errs, g9)" by blast
  show ?thesis
    unfolding dense_nn_unfold
    by (cases errs) (simp only: u0 fl lp ll pr lo ac sum.case prod.case, blast)
qed


lemma dense_nn_empty: "dense_nn nf [] nl seed g = Inl IndexError"
  unfolding dense_nn_unfold by (simp add: getitem_empty)

lemma dense_nn_prior_graph: "dense_nn nf ls nl seed g1 = dense_nn nf ls nl seed g2"
  unfolding dense_nn_unfold by (rule refl)

text \<open>
  C1, as the code has it. With an empty \<^verbatim>\<open>layer_sizes\<close> the assembler raises
  \<open>IndexError\<close> at \<^verbatim>\<open>layer_sizes[0]\<close> and returns no bundle. Whenever it returns a
  bundle, \<^verbatim>\<open>layer_sizes\<close> is not empty and the prediction head is a dense ReLU layer of
  \<^verbatim>\<open>nb_labels\<close> units on the dropout output of the last hidden layer, never on the
  input placeholder. It returns one for every non-empty \<^verbatim>\<open>layer_sizes\<close> of positive
  widths and a positive feature count.
\<close>

theorem dense_nn_prediction_head:
  "dense_nn nf [] nl seed g = Inl IndexError \<and>
   (dense_nn nf ls nl seed g = Inr (nn, h) \<longrightarrow>
      ls \<noteq> [] \<and>
      (\<exists>x l2. tensor_op (nn_predictions nn) =
                 Dense x nl tf_nn_relu (truncated_normal_initializer (sqrt (2 / real (last ls))) seed) \<and>
               tensor_op x = Dropout l2 (nn_pkeep nn) \<and> x \<noteq> nn_inputs nn)) \<and>
   (ls \<noteq> [] \<and> 0 < nf \<and> (\<forall>u\<in>set ls. 0 < u) \<longrightarrow>
      (\<exists>nn' h'. dense_nn nf ls nl seed g = Inr (nn', h')))"
proof (intro conjI impI)
  show "dense_nn nf [] nl seed g = Inl IndexError" by (rule dense_nn_empty)
next
  assume a: "dense_nn nf ls nl seed g = Inr (nn, h)"
  from dense_nn_char[OF a] show "ls \<noteq> []" by simp
  from dense_nn_char[OF a] obtain x l2 where
    x: "tensor_op (nn_predictions nn) = Dense x nl tf_nn_relu (he_init seed (last ls))"
      "tensor_op x = Dropout l2 ph_pkeep"
    by blast
  from dense_nn_inv[OF a] have p: "nn_pkeep nn = ph_pkeep" "nn_inputs nn = ph_inputs nf"
    by auto
  have "x \<noteq> nn_inputs nn" using x(2) by (auto simp: p ph_inputs_def)
  with x show "\<exists>x l2. tensor_op (nn_predictions nn) =
                 Dense x nl tf_nn_relu (truncated_normal_initializer (sqrt (2 / real (last ls))) seed) \<and>
               tensor_op x = Dropout l2 (nn_pkeep nn) \<and> x \<noteq> nn_inputs nn"
    unfolding he_init_def p by blast
next
  assume "ls \<noteq> [] \<and> 0 < nf \<and> (\<forall>u\<in>set ls. 0 < u)"
  then show "\<exists>nn' h'. dense_nn nf ls nl seed g = Inr (nn', h')"
    using dense_nn_ok by blast
qed

theorem dense_nn_prediction_head_witness:
  "\<exists>nn h x l2.
     dense_nn 4 [3] 1 7 \<lparr>operations = [], name_stack = [], summaries = []\<rparr> = Inr (nn, h) \<and>
     tensor_op (nn_predictions nn) =
       Dense x 1 tf_nn_relu (truncated_normal_initializer (sqrt (2 / real 3)) 7) \<and>
     tensor_op x = Dropout l2 (nn_pkeep nn) \<and> x \<noteq> nn_inputs nn"
proof -
  let ?g = "\<lparr>operations = [], name_stack = [], summaries = []\<rparr>"
  have "[3::nat] \<noteq> [] \<and> (0::nat) < 4 \<and> (\<forall>u\<in>set [3::nat]. 0 < u)" by simp
  with dense_nn_prediction_head[of 4 1 7 ?g "[3]"] obtain nn h where
    r: "dense_nn 4 [3] 1 7 ?g = Inr (nn, h)" by blast
  with dense_nn_prediction_head[of 4 1 7 ?g "[3]" nn h] show ?thesis by auto
qed

text \<open>
  C1 as stated fails: for the empty list of hidden layers the assembler does not return.
\<close>

theorem dense_nn_empty_counterexample:
  "dense_nn 4 [] 1 0 \<lparr>operations = [], name_stack = [], summaries = []\<rparr> = Inl IndexError"
  unfolding dense_nn_unfold by (simp add: getitem_def)

text \<open>
  C6. The assembler resets the default graph first, so what it returns does not depend
  on the graph it is called in: two invocations with the same topology and seed, from
  any two prior graphs, give the same bundle and the same graph, hence the same initial
  weights whatever the sampler; the kernels drawn are those of the initializers
  \<open>sqrt (2 / d)\<close> with the one seed, for the consecutive dimensions of the topology.
\<close>

theorem dense_nn_deterministic:
  "dense_nn nf ls nl seed g1 = dense_nn nf ls nl seed g2 \<and>
   (dense_nn nf ls nl seed g1 = Inr (nn1, h1) \<and> dense_nn nf ls nl seed g2 = Inr (nn2, h2) \<longrightarrow>
      nn1 = nn2 \<and> h1 = h2 \<and>
      initial_weights fw h1 = initial_weights fw h2 \<and>
      initial_weights fw h1 =
        map (\<lambda>(d, u). truncated_normal fw
                         (truncated_normal_initializer (sqrt (2 / real d)) seed) (Some d) u)
          (zip (nf # ls) (ls @ [nl])))"
proof (intro conjI impI)
  show "dense_nn nf ls nl seed g1 = dense_nn nf ls nl seed g2" by (rule dense_nn_prior_graph)
next
  assume a: "dense_nn nf ls nl seed g1 = Inr (nn1, h1) \<and> dense_nn nf ls nl seed g2 = Inr (nn2, h2)"
  have "Inr (nn1, h1) = dense_nn nf ls nl seed g1" using a by simp
  also have "\<dots> = dense_nn nf ls nl seed g2" by (rule dense_nn_prior_graph)
  also have "\<dots> = Inr (nn2, h2)" using a by simp
  finally have "Inr (nn1, h1) = (Inr (nn2, h2) :: error + NeuralNetwork \<times> graph)" .
  then show "nn1 = nn2" and e: "h1 = h2" by simp_all
  then show "initial_weights fw h1 = initial_weights fw h2" by simp
  from a dense_nn_char[of nf ls nl seed g1 nn1 h1]
  have "kernels h1 = map (\<lambda>(d, u). (he_init seed d, Some d, u)) (zip (nf # ls) (ls @ [nl]))"
    by simp
  then show "initial_weights fw h1 =
        map (\<lambda>(d, u). truncated_normal fw
                         (truncated_normal_initializer (sqrt (2 / real d)) seed) (Some d) u)
          (zip (nf # ls) (ls @ [nl]))"
    by (simp add: initial_weights_def he_init_def case_prod_beta)
qed

theorem dense_nn_deterministic_witness:
  "\<exists>nn1 h1 nn2 h2.
     dense_nn 4 [3] 1 7 \<lparr>operations = [], name_stack = [], summaries = []\<rparr> = Inr (nn1, h1) \<and>
     dense_nn 4 [3] 1 7
       \<lparr>operations = [Tensor [''old''] tf_float32 None (Placeholder ''x'')],
        name_stack = [''old''], summaries = []\<rparr> = Inr (nn2, h2) \<and>
     nn1 = nn2 \<and>
     initial_weights (sampling_framework []) h1 = initial_weights (sampling_framework []) h2 \<and>
     initial_weights (sampling_framework []) h1 =
       [(truncated_normal_initializer (sqrt (2 / real 4)) 7, Some 4, 3),
        (truncated_normal_initializer (sqrt (2 / real 3)) 7, Some 3, 1)]"
proof -
  let ?g1 = "\<lparr>operations = [], name_stack = [], summaries = []\<rparr>"
  let ?g2 = "\<lparr>operations = [Tensor [''old''] tf_float32 None (Placeholder ''x'')],
        name_stack = [''old''], summaries = []\<rparr>"
  let ?fw = "sampling_framework []"
  have pos: "[3::nat] \<noteq> []" "(0::nat) < 4" "\<forall>u\<in>set [3::nat]. 0 < u" by simp_all
  from dense_nn_ok[OF pos, of 1 7 ?g1] obtain nn1 h1 where
    r1: "dense_nn 4 [3] 1 7 ?g1 = Inr (nn1, h1)" by blast
  from dense_nn_ok[OF pos, of 1 7 ?g2] obtain nn2 h2 where
    r2: "dense_nn 4 [3] 1 7 ?g2 = Inr (nn2, h2)" by blast
  from dense_nn_deterministic[of 4 "[3]" 1 7 ?g1 ?g2 nn1 h1 nn2 h2 ?fw] r1 r2
  have e: "nn1 = nn2" "initial_weights ?fw h1 = initial_weights ?fw h2"
    and w: "initial_weights ?fw h1 =
        map (\<lambda>(d, u). truncated_normal ?fw
                         (truncated_normal_initializer (sqrt (2 / real d)) 7) (Some d) u)
          (zip (4 # [3]) ([3] @ [1]))"
    by blast+
  have "initial_weights ?fw h1 =
       [(truncated_normal_initializer (sqrt (2 / real 4)) 7, Some 4, 3),
        (truncated_normal_initializer (sqrt (2 / real 3)) 7, Some 3, 1)]"
    unfolding w by (simp add: sampling_framework_def)
  with r1 r2 e show ?thesis by (intro exI[of _ nn1] exI[of _ h1] exI[of _ nn2] exI[of _ h2] conjI)
qed

text \<open>
  C10. In the graph the assembler returns, every dense layer's kernel initializer
  carries the seed the assembler was given, and there are as many of them as hidden
  layers plus one, the prediction head.
\<close>

theorem dense_nn_single_seed:
  assumes "dense_nn nf ls nl seed g = Inr (nn, h)"
  shows "(\<forall>t\<in>set (operations h). \<forall>x u a i. tensor_op t = Dense x u a i \<longrightarrow> seed_of i = seed) \<and>
         map (\<lambda>(i, d, u). seed_of i) (kernels h) = replicate (length ls + 1) seed"
proof -
  from dense_nn_char[OF assms]
  have k: "kernels h = map (\<lambda>(d, u). (he_init seed d, Some d, u)) (zip (nf # ls) (ls @ [nl]))"
    by simp
  have "\<forall>t\<in>set (operations h). \<forall>x u a i. tensor_op t = Dense x u a i \<longrightarrow> seed_of i = seed"
  proof (intro ballI allI impI)
    fix t x u a i
    assume "t \<in> set (operations h)" and "tensor_op t = Dense x u a i"
    from kernels_Dense[OF this] obtain d where "(i, d, u) \<in> set (kernels h)" ..
    then show "seed_of i = seed" unfolding k by (auto simp: he_init_def)
  qed
  moreover have "map (\<lambda>(i, d, u). seed_of i) (kernels h) = replicate (length ls + 1) seed"
    unfolding k by (simp add: case_prod_beta he_init_def comp_def map_replicate_const)
  ultimately show ?thesis by blast
qed

theorem dense_nn_single_seed_witness:
  "\<exists>nn h. dense_nn 4 [3, 2] 1 7 \<lparr>operations = [], name_stack = [], summaries = []\<rparr> = Inr (nn, h) \<and>
     map (\<lambda>(i, d, u). seed_of i) (kernels h) = [7, 7, 7]"
proof -
  let ?g = "\<lparr>operations = [], name_stack = [], summaries = []\<rparr>"
  have "[3, 2::nat] \<noteq> []" "(0::nat) < 4" "\<forall>u\<in>set [3, 2::nat]. 0 < u" by simp_all
  from dense_nn_ok[OF this] obtain nn h where r: "dense_nn 4 [3, 2] 1 7 ?g = Inr (nn, h)"
    by blast
  from dense_nn_single_seed[OF r] have "map (\<lambda>(i, d, u). seed_of i) (kernels h) = [7, 7, 7]"
    by (simp add: numeral_3_eq_3)
  with r show ?thesis by (intro exI[of _ nn] exI[of _ h] conjI)
qed

section \<open>Properties of the error rates\<close>

subsection \<open>Element-wise operations on values\<close>

lemma sequence_Inr:
  "(\<And>x. x \<in> set xs \<Longrightarrow> F x = Inr (G x)) \<Longrightarrow> sequence (map F xs) = Inr (map G xs)"
  by (induction xs) simp_all

lemma broadcast_map_single: "broadcast_map g xs [y] = sequence (map (\<lambda>x. g x y) xs)"
  by (cases xs; cases "tl xs") (auto simp: broadcast_map_def)

lemma broadcast_map_same:
  "length xs = length ys \<Longrightarrow>
     broadcast_map g xs ys = sequence (map (\<lambda>(x, y). g x y) (zip xs ys))"
  by (simp add: broadcast_map_def)

lemma elementwise_scalar: "elementwise f R [[c]] = Inr (map (map (\<lambda>x. f x c)) R)"
  unfolding elementwise_def broadcast_map_single
  by (rule sequence_Inr) (simp add: sequence_Inr)

lemma elementwise_same:
  assumes "map length m = map length n"
  shows "elementwise f m n = Inr (map (\<lambda>(r, s). map (\<lambda>(x, y). f x y) (zip r s)) (zip m n))"
proof -
  from assms have len: "length m = length n" by (rule map_eq_imp_length_eq)
  have rows: "length r = length s" if "(r, s) \<in> set (zip m n)" for r s
  proof -
    from that obtain i where "i < length m" "i < length n" "r = m ! i" "s = n ! i"
      by (auto simp: set_zip)
    with assms show ?thesis by (metis length_map nth_map)
  qed
  have "sequence (map (\<lambda>(r, s). broadcast_map (\<lambda>x y. Inr (f x y)) r s) (zip m n)) =
          Inr (map (\<lambda>(r, s). map (\<lambda>(x, y). f x y) (zip r s)) (zip m n))"
  proof (rule sequence_Inr)
    fix z assume z: "z \<in> set (zip m n)"
    obtain r s where zz: "z = (r, s)" by (cases z)
    with z rows have l: "length r = length s" by simp
    have "broadcast_map (\<lambda>x y. Inr (f x y)) r s = Inr (map (\<lambda>(x, y). f x y) (zip r s))"
      unfolding broadcast_map_same[OF l] by (rule sequence_Inr) auto
    then show "(case z of (r, s) \<Rightarrow> broadcast_map (\<lambda>x y. Inr (f x y)) r s) =
       Inr (case z of (r, s) \<Rightarrow> map (\<lambda>(x, y). f x y) (zip r s))"
      by (simp add: zz)
  qed
  then show ?thesis unfolding elementwise_def broadcast_map_same[OF len] .
qed

subsection \<open>The operations under the name scope accuracy\<close>

lemma run_tensor_op:
  "run fw fd t = run_op fw fd (tensor_scope t) (tensor_dtype t) (get_shape t) (tensor_op t)"
  by (cases t) simp

lemma create_op_sel:
  "tensor_op (fst (create_op dt sh opn g)) = opn"
  "tensor_dtype (fst (create_op dt sh opn g)) = dt"
  "get_shape (fst (create_op dt sh opn g)) = sh"
  by (simp_all add: create_op_def Let_def)

lemma binary_op_inv:
  assumes "binary_op mk dt x y g = Inr (t, g')"
  shows "tensor_op t = mk x y" and "tensor_dtype t = dt"
  using assms by (auto simp: binary_op_def create_op_def Let_def split: sum.splits)

lemma add_error_rate_inv:
  assumes "add_error_rate re c name g = Inr (err, g')"
  shows "\<exists>m b k. tensor_op err = Mean m \<and> tensor_op m = Cast b \<and> tensor_dtype m = tf_float32 \<and>
           tensor_op b = Greater re k \<and> tensor_op k = Const c"
proof -
  from assms obtain b g1 where gr: "tf_greater re c g = Inr (b, g1)"
    and rest: "(case tf_cast b tf_float32 g1 of (c', g2) \<Rightarrow>
                  (case tf_reduce_mean c' g2 of (err', g3) \<Rightarrow>
                     (Inr (err', tf_summary_scalar name err' g3) :: error + tensor \<times> graph)))
               = Inr (err, g')"
    by (auto simp: add_error_rate_def split: sum.splits)
  obtain k gk where k: "tf_constant c g = (k, gk)" by (cases "tf_constant c g")
  from k have kop: "tensor_op k = Const c"
    using create_op_sel(1)[of tf_float32 "Some []" "Const c" g] by (simp add: tf_constant_def)
  from gr k have "binary_op Greater tf_bool re k gk = Inr (b, g1)" by (simp add: tf_greater_def)
  from binary_op_inv(1)[OF this] have bop: "tensor_op b = Greater re k" .
  obtain m g2 where m: "tf_cast b tf_float32 g1 = (m, g2)" by (cases "tf_cast b tf_float32 g1")
  from m have mop: "tensor_op m = Cast b" "tensor_dtype m = tf_float32"
    using create_op_sel(1,2)[of tf_float32 "get_shape b" "Cast b" g1] by (simp_all add: tf_cast_def)
  obtain e g3 where e: "tf_reduce_mean m g2 = (e, g3)" by (cases "tf_reduce_mean m g2")
  from e have eop: "tensor_op e = Mean m"
    using create_op_sel(1)[of "tensor_dtype m" "Some []" "Mean m" g2] by (simp add: tf_reduce_mean_def)
  from rest m e have "err = e" by simp
  with eop mop bop kop show ?thesis by blast
qed

lemma add_accuracy_inv:
  assumes "add_accuracy P L g = Inr ((e2, e1), g')"
  shows "\<exists>d a re m2 b2 k2 m1 b1 k1.
           tensor_op d = Sub P L \<and> tensor_op a = Abs d \<and> tensor_op re = RealDiv a L \<and>
           tensor_op e2 = Mean m2 \<and> tensor_op m2 = Cast b2 \<and> tensor_dtype m2 = tf_float32 \<and>
           tensor_op b2 = Greater re k2 \<and> tensor_op k2 = Const (2 / 100) \<and>
           tensor_op e1 = Mean m1 \<and> tensor_op m1 = Cast b1 \<and> tensor_dtype m1 = tf_float32 \<and>
           tensor_op b1 = Greater re k1 \<and> tensor_op k1 = Const (1 / 100)"
proof -
  from assms obtain d g1 where d: "tf_subtract P L (tf_name_scope_enter ''accuracy'' g) = Inr (d, g1)"
    by (auto simp: add_accuracy_def split: sum.splits)
  obtain a g2 where a: "tf_abs d g1 = (a, g2)" by (cases "tf_abs d g1")
  from assms d a obtain re g3 where re: "tf_divide a L g2 = Inr (re, g3)"
    by (auto simp: add_accuracy_def split: sum.splits)
  from assms d a re obtain g4 where r2: "add_error_rate re (2 / 100) ''error_2pc'' g3 = Inr (e2, g4)"
    by (auto simp: add_accuracy_def split: sum.splits)
  from assms d a re r2 obtain g5 where r1: "add_error_rate re (1 / 100) ''error_1pc'' g4 = Inr (e1, g5)"
    by (auto simp: add_accuracy_def split: sum.splits)
  have "tensor_op d = Sub P L" using d binary_op_inv(1) by (simp add: tf_subtract_def)
  moreover have "tensor_op a = Abs d"
    using a create_op_sel(1)[of "tensor_dtype d" "get_shape d" "Abs d" g1] by (simp add: tf_abs_def)
  moreover have "tensor_op re = RealDiv a L" using re binary_op_inv(1) by (simp add: tf_divide_def)
  ultimately show ?thesis
    using add_error_rate_inv[OF r2] add_error_rate_inv[OF r1] by blast
qed


lemma run_Mean:
  "tensor_op t = Mean x \<Longrightarrow>
     run fw fd t = (case float_of (run fw fd x) of
                      Inl e \<Rightarrow> Inl e
                    | Inr m \<Rightarrow> Inr (FloatVal [[fl_mean (concat m)]]))"
  by (simp add: run_tensor_op[of fw fd t])

lemma run_Cast_float:
  "tensor_op t = Cast x \<Longrightarrow> tensor_dtype t = tf_float32 \<Longrightarrow>
     run fw fd t = (case run fw fd x of
                      Inl e \<Rightarrow> Inl e
                    | Inr (FloatVal m) \<Rightarrow> Inr (FloatVal m)
                    | Inr (BoolVal m) \<Rightarrow> Inr (FloatVal (map (map fl_of_bool) m)))"
  by (simp add: run_tensor_op[of fw fd t] split: sum.splits val.splits)

lemma run_Greater_Const:
  "tensor_op t = Greater x k \<Longrightarrow> tensor_op k = Const c \<Longrightarrow>
     run fw fd t = (case float_of (run fw fd x) of
                      Inl e \<Rightarrow> Inl e
                    | Inr m \<Rightarrow> Inr (BoolVal (map (map (\<lambda>v. fl_greater v (Fin c))) m)))"
  by (simp add: run_tensor_op[of fw fd t] run_tensor_op[of fw fd k] binary_def float_of_def
      elementwise_scalar split: sum.splits val.splits)

lemma run_relative_error:
  "tensor_op d = Sub P L \<Longrightarrow> tensor_op a = Abs d \<Longrightarrow> tensor_op re = RealDiv a L \<Longrightarrow>
     float_of (run fw fd re) = relative_error_run (run fw fd P) (run fw fd L)"
  by (simp add: run_tensor_op[of fw fd re] run_tensor_op[of fw fd a] run_tensor_op[of fw fd d]
      relative_error_run_def)

lemma run_error_rate:
  assumes "tensor_op err = Mean m" and "tensor_op m = Cast b" and "tensor_dtype m = tf_float32"
    and "tensor_op b = Greater re k" and "tensor_op k = Const c"
  shows "run fw fd err = (case float_of (run fw fd re) of
                            Inl e \<Rightarrow> Inl e
                          | Inr R \<Rightarrow> Inr (FloatVal [[exceed_rate c R]]))"
  unfolding run_Mean[OF assms(1)] run_Cast_float[OF assms(2,3)] run_Greater_Const[OF assms(4,5)]
  by (simp add: float_of_def exceed_rate_def map_concat comp_def split: sum.splits val.splits)

lemma add_accuracy_run:
  assumes "add_accuracy P L g = Inr ((e2, e1), g')"
  shows "run fw fd e2 =
           (case relative_error_run (run fw fd P) (run fw fd L) of
              Inl e \<Rightarrow> Inl e
            | Inr R \<Rightarrow> Inr (FloatVal [[exceed_rate (2 / 100) R]]))"
    and "run fw fd e1 =
           (case relative_error_run (run fw fd P) (run fw fd L) of
              Inl e \<Rightarrow> Inl e
            | Inr R \<Rightarrow> Inr (FloatVal [[exceed_rate (1 / 100) R]]))"
proof -
  from add_accuracy_inv[OF assms] obtain d a re m2 b2 k2 m1 b1 k1 where
    s: "tensor_op d = Sub P L" "tensor_op a = Abs d" "tensor_op re = RealDiv a L"
    and r2: "tensor_op e2 = Mean m2" "tensor_op m2 = Cast b2" "tensor_dtype m2 = tf_float32"
      "tensor_op b2 = Greater re k2" "tensor_op k2 = Const (2 / 100)"
    and r1: "tensor_op e1 = Mean m1" "tensor_op m1 = Cast b1" "tensor_dtype m1 = tf_float32"
      "tensor_op b1 = Greater re k1" "tensor_op k1 = Const (1 / 100)"
    by blast
  show "run fw fd e2 =
           (case relative_error_run (run fw fd P) (run fw fd L) of
              Inl e \<Rightarrow> Inl e
            | Inr R \<Rightarrow> Inr (FloatVal [[exceed_rate (2 / 100) R]]))"
    unfolding run_error_rate[OF r2] run_relative_error[OF s] ..
  show "run fw fd e1 =
           (case relative_error_run (run fw fd P) (run fw fd L) of
              Inl e \<Rightarrow> Inl e
            | Inr R \<Rightarrow> Inr (FloatVal [[exceed_rate (1 / 100) R]]))"
    unfolding run_error_rate[OF r1] run_relative_error[OF s] ..
qed

lemma relative_error_run_same:
  assumes "map length P = map length L"
  shows "relative_error_run (Inr (FloatVal P)) (Inr (FloatVal L)) =
           Inr (map (\<lambda>(r, s). map (\<lambda>(p, l). relative_error_of p l) (zip r s)) (zip P L))"
proof -
  let ?D = "map (\<lambda>(r, s). map (\<lambda>(x, y). fl_sub x y) (zip r s)) (zip P L)"
  have len: "length P = length L" using assms by (rule map_eq_imp_length_eq)
  have rows: "length (P ! i) = length (L ! i)" if "i < length P" for i
    using assms that len by (metis length_map nth_map)
  have "map length (map (map fl_abs) ?D) = map length L"
    by (rule nth_equalityI) (simp_all add: len rows)
  from elementwise_same[OF this, of fl_div]
  have "elementwise fl_div (map (map fl_abs) ?D) L =
          Inr (map (\<lambda>(r, s). map (\<lambda>(x, y). fl_div x y) (zip r s)) (zip (map (map fl_abs) ?D) L))" .
  moreover have "map (\<lambda>(r, s). map (\<lambda>(x, y). fl_div x y) (zip r s)) (zip (map (map fl_abs) ?D) L) =
          map (\<lambda>(r, s). map (\<lambda>(p, l). relative_error_of p l) (zip r s)) (zip P L)"
    by (rule nth_equalityI)
       (auto simp: len rows relative_error_of_def intro!: nth_equalityI)
  ultimately show ?thesis
    by (simp add: relative_error_run_def binary_def unary_def float_of_def float_result_def
        elementwise_same[OF assms])
qed


subsection \<open>The mean of a cast of booleans\<close>

lemma fl_add_Fin: "fl_add (Fin a) (Fin b) = Fin (a + b)"
  by simp

lemma foldl_fl_add_of_bool:
  "foldl fl_add (Fin a) (map fl_of_bool bs) = Fin (a + real (length (filter id bs)))"
  by (induction bs arbitrary: a) (simp_all add: fl_of_bool_def)

lemma fl_div_count:
  assumes "0 \<le> c" and "0 < n"
  shows "fl_div (Fin c) (Fin n) = Fin (c / n)"
  using assms by (simp add: fl_div_def fl_finite_def)

lemma fl_mean_of_bool:
  "fl_mean (map fl_of_bool bs) =
     (if bs = [] then NaN else Fin (real (length (filter id bs)) / real (length bs)))"
proof (cases "bs = []")
  case True
  then show ?thesis by (simp add: fl_mean_def fl_div_def)
next
  case False
  then have "0 < real (length bs)" by simp
  with False show ?thesis
    using foldl_fl_add_of_bool[of 0 bs] by (simp add: fl_mean_def fl_div_count)
qed

lemma exceed_rate_eq:
  "exceed_rate c R =
     (if concat R = [] then NaN
      else Fin (real (length (filter (\<lambda>x. fl_greater x (Fin c)) (concat R))) /
                real (length (concat R))))"
proof -
  have "map (\<lambda>x. fl_of_bool (fl_greater x (Fin c))) (concat R) =
          map fl_of_bool (map (\<lambda>x. fl_greater x (Fin c)) (concat R))"
    by simp
  then show ?thesis
    unfolding exceed_rate_def by (simp only: fl_mean_of_bool) (simp add: filter_map comp_def)
qed

lemma fl_greater_Fin:
  "fl_greater x (Fin c) \<longleftrightarrow> x = PosInf \<or> (\<exists>r. x = Fin r \<and> c < r) \<or> (x = NegZero \<and> c < 0)"
  by (cases x) (auto simp: fl_greater_def fl_less_def)

lemma fl_greater_Fin_Fin: "fl_greater (Fin r) (Fin c) \<longleftrightarrow> c < r"
  by (simp add: fl_greater_def fl_less_def)

lemma fl_greater_mono: "c \<le> c' \<Longrightarrow> fl_greater x (Fin c') \<Longrightarrow> fl_greater x (Fin c)"
  by (auto simp: fl_greater_Fin)

lemma length_filter_mono:
  "(\<And>x. x \<in> set xs \<Longrightarrow> P x \<Longrightarrow> Q x) \<Longrightarrow> length (filter P xs) \<le> length (filter Q xs)"
  by (induction xs) auto

lemma exceed_rate_ordered:
  "(exceed_rate (2 / 100) R = NaN \<and> exceed_rate (1 / 100) R = NaN \<and> concat R = []) \<or>
   (\<exists>x y. exceed_rate (2 / 100) R = Fin x \<and> exceed_rate (1 / 100) R = Fin y \<and>
           0 \<le> x \<and> x \<le> y \<and> y \<le> 1 \<and> concat R \<noteq> [])"
proof (cases "concat R = []")
  case True
  then show ?thesis by (simp add: exceed_rate_eq)
next
  case False
  let ?n = "real (length (concat R))"
  let ?c2 = "real (length (filter (\<lambda>x. fl_greater x (Fin (2 / 100))) (concat R)))"
  let ?c1 = "real (length (filter (\<lambda>x. fl_greater x (Fin (1 / 100))) (concat R)))"
  have n: "0 < ?n" using False by simp
  have "?c2 \<le> ?c1"
    using length_filter_mono[of "concat R" "\<lambda>x. fl_greater x (Fin (2 / 100))"
        "\<lambda>x. fl_greater x (Fin (1 / 100))"] fl_greater_mono[of "1 / 100" "2 / 100"]
    by simp
  then have a: "?c2 / ?n \<le> ?c1 / ?n" using n by (simp add: divide_right_mono)
  have "?c1 \<le> ?n" by simp
  then have b: "?c1 / ?n \<le> 1" using n by simp
  have c: "0 \<le> ?c2 / ?n" by simp
  show ?thesis using False a b c by (simp only: exceed_rate_eq if_False) blast
qed


subsection \<open>An example network\<close>

lemmas build_defs = dense_nn_unfold getitem_def dense_relu_bn_drop_def dense_relu_def as_list_def
  truediv_def tf_layers_dense_def tf_layers_batch_normalization_def tf_nn_dropout_def
  metric_defs broadcast_shape_def graph_of_placeholders_def ph_inputs_def ph_labels_def
  ph_training_phase_def ph_pkeep_def empty_graph_def

lemmas run_defs = float_of_def bool_of_def float_result_def unary_def binary_def feed_def
  shape_accepts_def rectangular_def dim_accepts_def activate_def fl_relu_def fl_less_def
  sampling_framework_def example_feed_def

lemma example_run:
  "case dense_nn 1 [1] 1 7 empty_graph of
     Inl e \<Rightarrow> False
   | Inr (nn, h) \<Rightarrow>
       run (sampling_framework [[Fin a], [Fin b], [Fin c]])
           (example_feed [[Fin 0], [Fin 0], [Fin 0]] [[l1], [l2], [l3]]) (nn_predictions nn)
         = Inr (FloatVal [[fl_relu (Fin a)], [fl_relu (Fin b)], [fl_relu (Fin c)]]) \<and>
       run (sampling_framework [[Fin a], [Fin b], [Fin c]])
           (example_feed [[Fin 0], [Fin 0], [Fin 0]] [[l1], [l2], [l3]]) (nn_labels nn)
         = Inr (FloatVal [[l1], [l2], [l3]])"
  by (simp add: build_defs float_of_def bool_of_def float_result_def feed_def
      shape_accepts_def rectangular_def dim_accepts_def activate_def
      sampling_framework_def example_feed_def)


lemma example_network: "\<exists>nn h. dense_nn 1 [1] 1 7 empty_graph = Inr (nn, h)"
  using dense_nn_ok[of "[1]" 1 1 7 empty_graph] by simp

subsection \<open>The error rates of the assembled graph\<close>

lemma concat_zip_same:
  "map length P = map length L \<Longrightarrow>
     concat (map (\<lambda>(r, s). map (\<lambda>(x, y). f x y) (zip r s)) (zip P L)) =
       map (\<lambda>(x, y). f x y) (zip (concat P) (concat L))"
proof (induction P arbitrary: L)
  case Nil
  then show ?case by simp
next
  case (Cons r P)
  then obtain s L' where L: "L = s # L'" by (cases L) auto
  with Cons.prems have "length r = length s" "map length P = map length L'" by simp_all
  with Cons.IH[of L'] show ?case by (simp add: L zip_append)
qed

lemma dense_nn_metrics_run:
  assumes "dense_nn nf ls nl seed g = Inr (nn, h)"
  shows "run fw fd (nn_err_2pc nn) =
           (case relative_error_run (run fw fd (nn_predictions nn)) (run fw fd (nn_labels nn)) of
              Inl e \<Rightarrow> Inl e
            | Inr R \<Rightarrow> Inr (FloatVal [[exceed_rate (2 / 100) R]]))"
    and "run fw fd (nn_err_1pc nn) =
           (case relative_error_run (run fw fd (nn_predictions nn)) (run fw fd (nn_labels nn)) of
              Inl e \<Rightarrow> Inl e
            | Inr R \<Rightarrow> Inr (FloatVal [[exceed_rate (1 / 100) R]]))"
proof -
  from dense_nn_inv[OF assms] obtain g8 where
    a: "add_accuracy (nn_predictions nn) (nn_labels nn) g8 = Inr ((nn_err_2pc nn, nn_err_1pc nn), h)"
    by auto
  show "run fw fd (nn_err_2pc nn) =
           (case relative_error_run (run fw fd (nn_predictions nn)) (run fw fd (nn_labels nn)) of
              Inl e \<Rightarrow> Inl e
            | Inr R \<Rightarrow> Inr (FloatVal [[exceed_rate (2 / 100) R]]))"
    by (rule add_accuracy_run(1)[OF a])
  show "run fw fd (nn_err_1pc nn) =
           (case relative_error_run (run fw fd (nn_predictions nn)) (run fw fd (nn_labels nn)) of
              Inl e \<Rightarrow> Inl e
            | Inr R \<Rightarrow> Inr (FloatVal [[exceed_rate (1 / 100) R]]))"
    by (rule add_accuracy_run(2)[OF a])
qed

lemma dense_nn_metrics_same:
  assumes "dense_nn nf ls nl seed g = Inr (nn, h)"
    and "run fw fd (nn_predictions nn) = Inr (FloatVal P)"
    and "run fw fd (nn_labels nn) = Inr (FloatVal L)"
    and "map length P = map length L"
  shows "run fw fd (nn_err_2pc nn) =
           Inr (FloatVal [[exceed_rate (2 / 100)
              [map (\<lambda>(p, l). relative_error_of p l) (zip (concat P) (concat L))]]])"
    and "run fw fd (nn_err_1pc nn) =
           Inr (FloatVal [[exceed_rate (1 / 100)
              [map (\<lambda>(p, l). relative_error_of p l) (zip (concat P) (concat L))]]])"
  unfolding dense_nn_metrics_run[OF assms(1)] assms(2,3) relative_error_run_same[OF assms(4)]
  by (simp_all add: exceed_rate_def concat_zip_same[OF assms(4)])

text \<open>
  C4. In the assembled graph the relative error is \<open>Abs (Sub predictions labels)\<close>
  divided by the labels, and each error rate is the mean of the cast to
  \<^verbatim>\<open>float32\<close> of \<^verbatim>\<open>Greater\<close> of that relative error and the constant 0.02 (for
  \<^verbatim>\<open>err_2pc\<close>) or 0.01 (for \<^verbatim>\<open>err_1pc\<close>). Run on predictions and labels of one shape,
  each rate is the mean over all elements of the cast of the test "relative error
  exceeds the threshold". On a batch of three rows whose relative errors are 0.5%, 1.5%
  and 2.5%, \<^verbatim>\<open>err_1pc\<close> is 2/3 and \<^verbatim>\<open>err_2pc\<close> is 1/3.
\<close>

theorem dense_nn_error_rates:
  assumes "dense_nn nf ls nl seed g = Inr (nn, h)"
  shows "(\<exists>d a re m2 b2 k2 m1 b1 k1.
           tensor_op d = Sub (nn_predictions nn) (nn_labels nn) \<and> tensor_op a = Abs d \<and>
           tensor_op re = RealDiv a (nn_labels nn) \<and>
           tensor_op (nn_err_2pc nn) = Mean m2 \<and> tensor_op m2 = Cast b2 \<and>
           tensor_dtype m2 = tf_float32 \<and>
           tensor_op b2 = Greater re k2 \<and> tensor_op k2 = Const (2 / 100) \<and>
           tensor_op (nn_err_1pc nn) = Mean m1 \<and> tensor_op m1 = Cast b1 \<and>
           tensor_dtype m1 = tf_float32 \<and>
           tensor_op b1 = Greater re k1 \<and> tensor_op k1 = Const (1 / 100)) \<and>
         (run fw fd (nn_predictions nn) = Inr (FloatVal P) \<and>
          run fw fd (nn_labels nn) = Inr (FloatVal L) \<and> map length P = map length L \<longrightarrow>
            run fw fd (nn_err_2pc nn) =
              Inr (FloatVal [[fl_mean (map (\<lambda>(p, l).
                     fl_of_bool (fl_greater (fl_div (fl_abs (fl_sub p l)) l) (Fin (2 / 100))))
                   (zip (concat P) (concat L)))]]) \<and>
            run fw fd (nn_err_1pc nn) =
              Inr (FloatVal [[fl_mean (map (\<lambda>(p, l).
                     fl_of_bool (fl_greater (fl_div (fl_abs (fl_sub p l)) l) (Fin (1 / 100))))
                   (zip (concat P) (concat L)))]])) \<and>
         (run fw fd (nn_predictions nn) = Inr (FloatVal [[p1], [p2], [p3]]) \<and>
          run fw fd (nn_labels nn) = Inr (FloatVal [[l1], [l2], [l3]]) \<and>
          fl_div (fl_abs (fl_sub p1 l1)) l1 = Fin (5 / 1000) \<and>
          fl_div (fl_abs (fl_sub p2 l2)) l2 = Fin (15 / 1000) \<and>
          fl_div (fl_abs (fl_sub p3 l3)) l3 = Fin (25 / 1000) \<longrightarrow>
            run fw fd (nn_err_1pc nn) = Inr (FloatVal [[Fin (2 / 3)]]) \<and>
            run fw fd (nn_err_2pc nn) = Inr (FloatVal [[Fin (1 / 3)]]))"
proof (intro conjI impI)
  from dense_nn_inv[OF assms] obtain g8 where
    "add_accuracy (nn_predictions nn) (nn_labels nn) g8 = Inr ((nn_err_2pc nn, nn_err_1pc nn), h)"
    by auto
  from add_accuracy_inv[OF this] show "\<exists>d a re m2 b2 k2 m1 b1 k1.
           tensor_op d = Sub (nn_predictions nn) (nn_labels nn) \<and> tensor_op a = Abs d \<and>
           tensor_op re = RealDiv a (nn_labels nn) \<and>
           tensor_op (nn_err_2pc nn) = Mean m2 \<and> tensor_op m2 = Cast b2 \<and>
           tensor_dtype m2 = tf_float32 \<and>
           tensor_op b2 = Greater re k2 \<and> tensor_op k2 = Const (2 / 100) \<and>
           tensor_op (nn_err_1pc nn) = Mean m1 \<and> tensor_op m1 = Cast b1 \<and>
           tensor_dtype m1 = tf_float32 \<and>
           tensor_op b1 = Greater re k1 \<and> tensor_op k1 = Const (1 / 100)" .
next
  assume a: "run fw fd (nn_predictions nn) = Inr (FloatVal P) \<and>
          run fw fd (nn_labels nn) = Inr (FloatVal L) \<and> map length P = map length L"
  then have p: "run fw fd (nn_predictions nn) = Inr (FloatVal P)"
    and l: "run fw fd (nn_labels nn) = Inr (FloatVal L)" and s: "map length P = map length L"
    by simp_all
  show "run fw fd (nn_err_2pc nn) =
              Inr (FloatVal [[fl_mean (map (\<lambda>(p, l).
                     fl_of_bool (fl_greater (fl_div (fl_abs (fl_sub p l)) l) (Fin (2 / 100))))
                   (zip (concat P) (concat L)))]])"
    unfolding dense_nn_metrics_same(1)[OF assms p l s]
    by (simp add: exceed_rate_def relative_error_of_def case_prod_unfold comp_def)
  show "run fw fd (nn_err_1pc nn) =
              Inr (FloatVal [[fl_mean (map (\<lambda>(p, l).
                     fl_of_bool (fl_greater (fl_div (fl_abs (fl_sub p l)) l) (Fin (1 / 100))))
                   (zip (concat P) (concat L)))]])"
    unfolding dense_nn_metrics_same(2)[OF assms p l s]
    by (simp add: exceed_rate_def relative_error_of_def case_prod_unfold comp_def)
next
  assume a: "run fw fd (nn_predictions nn) = Inr (FloatVal [[p1], [p2], [p3]]) \<and>
          run fw fd (nn_labels nn) = Inr (FloatVal [[l1], [l2], [l3]]) \<and>
          fl_div (fl_abs (fl_sub p1 l1)) l1 = Fin (5 / 1000) \<and>
          fl_div (fl_abs (fl_sub p2 l2)) l2 = Fin (15 / 1000) \<and>
          fl_div (fl_abs (fl_sub p3 l3)) l3 = Fin (25 / 1000)"
  then have p: "run fw fd (nn_predictions nn) = Inr (FloatVal [[p1], [p2], [p3]])"
    and l: "run fw fd (nn_labels nn) = Inr (FloatVal [[l1], [l2], [l3]])"
    and e: "relative_error_of p1 l1 = Fin (5 / 1000)" "relative_error_of p2 l2 = Fin (15 / 1000)"
      "relative_error_of p3 l3 = Fin (25 / 1000)"
    by (simp_all add: relative_error_of_def)
  have s: "map length [[p1], [p2], [p3]] = map length [[l1], [l2], [l3]]" by simp
  show "run fw fd (nn_err_1pc nn) = Inr (FloatVal [[Fin (2 / 3)]])"
    unfolding dense_nn_metrics_same(2)[OF assms p l s]
    by (simp add: exceed_rate_eq e fl_greater_Fin_Fin)
  show "run fw fd (nn_err_2pc nn) = Inr (FloatVal [[Fin (1 / 3)]])"
    unfolding dense_nn_metrics_same(1)[OF assms p l s]
    by (simp add: exceed_rate_eq e fl_greater_Fin_Fin)
qed


theorem dense_nn_error_rates_witness:
  "\<exists>nn h.
     dense_nn 1 [1] 1 7 empty_graph = Inr (nn, h) \<and>
     run (sampling_framework [[Fin (1005 / 1000)], [Fin (1015 / 1000)], [Fin (1025 / 1000)]])
       (example_feed [[Fin 0], [Fin 0], [Fin 0]] [[Fin 1], [Fin 1], [Fin 1]]) (nn_err_1pc nn)
       = Inr (FloatVal [[Fin (2 / 3)]]) \<and>
     run (sampling_framework [[Fin (1005 / 1000)], [Fin (1015 / 1000)], [Fin (1025 / 1000)]])
       (example_feed [[Fin 0], [Fin 0], [Fin 0]] [[Fin 1], [Fin 1], [Fin 1]]) (nn_err_2pc nn)
       = Inr (FloatVal [[Fin (1 / 3)]])"
proof -
  let ?fw = "sampling_framework [[Fin (1005 / 1000)], [Fin (1015 / 1000)], [Fin (1025 / 1000)]]"
  let ?fd = "example_feed [[Fin 0], [Fin 0], [Fin 0]] [[Fin 1], [Fin 1], [Fin 1]]"
  from example_network obtain nn h where r: "dense_nn 1 [1] 1 7 empty_graph = Inr (nn, h)"
    by blast
  from example_run[of "1005 / 1000" "1015 / 1000" "1025 / 1000" "Fin 1" "Fin 1" "Fin 1"] r
  have p: "run ?fw ?fd (nn_predictions nn) =
             Inr (FloatVal [[Fin (1005 / 1000)], [Fin (1015 / 1000)], [Fin (1025 / 1000)]])"
    and l: "run ?fw ?fd (nn_labels nn) = Inr (FloatVal [[Fin 1], [Fin 1], [Fin 1]])"
    by (simp_all add: fl_relu_def fl_less_def)
  have e: "fl_div (fl_abs (fl_sub (Fin (1005 / 1000)) (Fin 1))) (Fin 1) = Fin (5 / 1000)"
    "fl_div (fl_abs (fl_sub (Fin (1015 / 1000)) (Fin 1))) (Fin 1) = Fin (15 / 1000)"
    "fl_div (fl_abs (fl_sub (Fin (1025 / 1000)) (Fin 1))) (Fin 1) = Fin (25 / 1000)"
    by (simp_all add: fl_sub_def fl_div_def fl_finite_def)
  from dense_nn_error_rates[OF r, of ?fw ?fd] p l e
  have "run ?fw ?fd (nn_err_1pc nn) = Inr (FloatVal [[Fin (2 / 3)]]) \<and>
        run ?fw ?fd (nn_err_2pc nn) = Inr (FloatVal [[Fin (1 / 3)]])"
    by blast
  with r show ?thesis by blast
qed

lemma metrics_ordered:
  assumes "dense_nn nf ls nl seed g = Inr (nn, h)"
    and "run fw fd (nn_err_2pc nn) = Inr v2" and "run fw fd (nn_err_1pc nn) = Inr v1"
  shows "\<exists>a b. v2 = FloatVal [[a]] \<and> v1 = FloatVal [[b]] \<and>
           ((a = NaN \<and> b = NaN) \<or> (\<exists>x y. a = Fin x \<and> b = Fin y \<and> 0 \<le> x \<and> x \<le> y \<and> y \<le> 1))"
proof -
  from assms(2) obtain R where
    R: "relative_error_run (run fw fd (nn_predictions nn)) (run fw fd (nn_labels nn)) = Inr R"
    unfolding dense_nn_metrics_run(1)[OF assms(1)] by (auto split: sum.splits)
  from assms(2) have v2: "v2 = FloatVal [[exceed_rate (2 / 100) R]]"
    unfolding dense_nn_metrics_run(1)[OF assms(1)] R by simp
  from assms(3) have v1: "v1 = FloatVal [[exceed_rate (1 / 100) R]]"
    unfolding dense_nn_metrics_run(2)[OF assms(1)] R by simp
  from exceed_rate_ordered[of R] v2 v1 show ?thesis by blast
qed

lemma fl_greater_Fin_ordered: "x \<le> y \<Longrightarrow> \<not> fl_greater (Fin x) (Fin y)"
  by (simp add: fl_greater_Fin_Fin)

text \<open>
  C5, as the code has it. Whenever the two error rates evaluate, \<^verbatim>\<open>err_2pc\<close> is not
  greater than \<^verbatim>\<open>err_1pc\<close>: both are NaN (no element at all), or both are fractions
  between 0 and 1 with \<^verbatim>\<open>err_2pc\<close> \<open>\<le>\<close> \<^verbatim>\<open>err_1pc\<close>.
\<close>

theorem error_rates_ordered:
  assumes "dense_nn nf ls nl seed g = Inr (nn, h)"
    and "run fw fd (nn_err_2pc nn) = Inr v2" and "run fw fd (nn_err_1pc nn) = Inr v1"
  shows "\<exists>a b. v2 = FloatVal [[a]] \<and> v1 = FloatVal [[b]] \<and> \<not> fl_greater a b \<and>
           ((a = NaN \<and> b = NaN) \<or> (\<exists>x y. a = Fin x \<and> b = Fin y \<and> 0 \<le> x \<and> x \<le> y \<and> y \<le> 1))"
proof -
  from metrics_ordered[OF assms] obtain a b where
    ab: "v2 = FloatVal [[a]]" "v1 = FloatVal [[b]]"
    and c: "(a = NaN \<and> b = NaN) \<or> (\<exists>x y. a = Fin x \<and> b = Fin y \<and> 0 \<le> x \<and> x \<le> y \<and> y \<le> 1)"
    by blast
  from c have "\<not> fl_greater a b"
    by (auto simp: fl_greater_Fin_Fin fl_greater_def fl_less_def)
  with ab c show ?thesis by blast
qed

theorem error_rates_ordered_witness:
  "\<exists>nn h a b.
     dense_nn 1 [1] 1 7 empty_graph = Inr (nn, h) \<and>
     run (sampling_framework [[Fin (1005 / 1000)], [Fin (1015 / 1000)], [Fin (1025 / 1000)]])
       (example_feed [[Fin 0], [Fin 0], [Fin 0]] [[Fin 1], [Fin 1], [Fin 1]]) (nn_err_2pc nn)
       = Inr (FloatVal [[a]]) \<and>
     run (sampling_framework [[Fin (1005 / 1000)], [Fin (1015 / 1000)], [Fin (1025 / 1000)]])
       (example_feed [[Fin 0], [Fin 0], [Fin 0]] [[Fin 1], [Fin 1], [Fin 1]]) (nn_err_1pc nn)
       = Inr (FloatVal [[b]]) \<and>
     \<not> fl_greater a b"
proof -
  let ?fw = "sampling_framework [[Fin (1005 / 1000)], [Fin (1015 / 1000)], [Fin (1025 / 1000)]]"
  let ?fd = "example_feed [[Fin 0], [Fin 0], [Fin 0]] [[Fin 1], [Fin 1], [Fin 1]]"
  from example_network obtain nn h where r: "dense_nn 1 [1] 1 7 empty_graph = Inr (nn, h)"
    by blast
  from example_run[of "1005 / 1000" "1015 / 1000" "1025 / 1000" "Fin 1" "Fin 1" "Fin 1"] r
  have p: "run ?fw ?fd (nn_predictions nn) =
             Inr (FloatVal [[Fin (1005 / 1000)], [Fin (1015 / 1000)], [Fin (1025 / 1000)]])"
    and l: "run ?fw ?fd (nn_labels nn) = Inr (FloatVal [[Fin 1], [Fin 1], [Fin 1]])"
    by (simp_all add: fl_relu_def fl_less_def)
  have s: "map length [[Fin (1005 / 1000)], [Fin (1015 / 1000)], [Fin (1025 / 1000)]] =
           map length [[Fin 1], [Fin 1], [Fin 1 :: fl]]" by simp
  note m = dense_nn_metrics_same[OF r p l s]
  from error_rates_ordered[OF r m(1) m(2)] obtain a b where
    "FloatVal [[exceed_rate (2 / 100) [map (\<lambda>(p, l). relative_error_of p l)
        (zip (concat [[Fin (1005 / 1000)], [Fin (1015 / 1000)], [Fin (1025 / 1000)]])
             (concat [[Fin 1], [Fin 1], [Fin 1]]))]]] = FloatVal [[a]]"
    "FloatVal [[exceed_rate (1 / 100) [map (\<lambda>(p, l). relative_error_of p l)
        (zip (concat [[Fin (1005 / 1000)], [Fin (1015 / 1000)], [Fin (1025 / 1000)]])
             (concat [[Fin 1], [Fin 1], [Fin 1]]))]]] = FloatVal [[b]]"
    "\<not> fl_greater a b"
    by blast
  with r m show ?thesis by (intro exI[of _ nn] exI[of _ h] exI[of _ a] exI[of _ b]) simp
qed

text \<open>
  C5 as stated fails: no topology, framework and feed make \<^verbatim>\<open>err_2pc\<close> strictly
  greater than \<^verbatim>\<open>err_1pc\<close>.
\<close>

theorem error_rates_counterexample:
  "\<not> (\<exists>nf ls nl seed g nn h (fw :: unit framework) fd a b.
         dense_nn nf ls nl seed g = Inr (nn, h) \<and>
         run fw fd (nn_err_2pc nn) = Inr (FloatVal [[a]]) \<and>
         run fw fd (nn_err_1pc nn) = Inr (FloatVal [[b]]) \<and>
         fl_greater a b)"
proof
  assume "\<exists>nf ls nl seed g nn h (fw :: unit framework) fd a b.
         dense_nn nf ls nl seed g = Inr (nn, h) \<and>
         run fw fd (nn_err_2pc nn) = Inr (FloatVal [[a]]) \<and>
         run fw fd (nn_err_1pc nn) = Inr (FloatVal [[b]]) \<and>
         fl_greater a b"
  then obtain nf ls nl seed g nn h and fw :: "unit framework" and fd a b where
    r: "dense_nn nf ls nl seed g = Inr (nn, h)"
    and v: "run fw fd (nn_err_2pc nn) = Inr (FloatVal [[a]])"
      "run fw fd (nn_err_1pc nn) = Inr (FloatVal [[b]])"
    and g: "fl_greater a b"
    by blast
  from metrics_ordered[OF r v] have
    "(a = NaN \<and> b = NaN) \<or> (\<exists>x y. a = Fin x \<and> b = Fin y \<and> 0 \<le> x \<and> x \<le> y \<and> y \<le> 1)"
    by simp
  with g show False by (auto simp: fl_greater_Fin_Fin fl_greater_def fl_less_def)
qed

end
